theory Spec2Isabelle
  imports Complex_Main
begin

section \<open>Data model (block.py, blockset.py)\<close>

text \<open>
  Grid coordinates are Python integers. The sail and mirror checks compute with the
  float literals 0.4, 0.61 and with halves of integers; these are modelled as exact
  rationals.

  A \<open>Block\<close> carries the fields of class Block that the puzzle logic reads or writes
  (\<open>size\<close> is only used for drawing and is left out). The field \<open>selected\<close> is written
  with \<open>True\<close>/\<open>False\<close> by blockset.py and with 1, 0 by ui.py; only its truth value
  is ever read on the blocks of the grid, so it is a \<open>bool\<close> (1 is True, 0 is False).
\<close>

type_synonym position = "int \<times> int"
type_synonym rgb = "int \<times> int \<times> int"

record Block =
  btype :: int
  pos :: position
  color :: rgb
  detailed_information :: "int list"
  selected :: bool
  ghost :: bool
  original_pos :: position

text \<open>
  A block object is identified by its index in \<open>blocks\<close>. The Python set
  \<open>selected_blocks\<close> is the list of the indices of its members in insertion order;
  Python leaves the iteration order of a set unspecified but keeps it fixed while
  the set is not modified, which is all the code relies on.
\<close>

record BlockSet =
  blocks :: "Block list"
  selected_blocks :: "nat list"

datatype error = IndexError | ZeroDivisionError | TypeError | UnboundLocalError

definition bind_err :: "error + 'a \<Rightarrow> ('a \<Rightarrow> error + 'b) \<Rightarrow> error + 'b" where
  "bind_err m f = (case m of Inl e \<Rightarrow> Inl e | Inr v \<Rightarrow> f v)"

definition py_index :: "'a list \<Rightarrow> nat \<Rightarrow> error + 'a" where
  "py_index xs i = (if i < length xs then Inr (xs ! i) else Inl IndexError)"

definition get_all_positions :: "BlockSet \<Rightarrow> position list" where
  "get_all_positions bs = map pos (blocks bs)"

definition get_selected_positions :: "BlockSet \<Rightarrow> position list" where
  "get_selected_positions bs = map (\<lambda>i. pos (blocks bs ! i)) (selected_blocks bs)"

subsection \<open>BlockSet.is_connected\<close>

definition visit_neighbor ::
  "position list \<Rightarrow> position \<Rightarrow> position list \<times> position list \<Rightarrow> position list \<times> position list" where
  "visit_neighbor selected_positions neighbor vq =
     (if neighbor \<in> set selected_positions \<and> neighbor \<notin> set (fst vq)
      then (fst vq @ [neighbor], snd vq @ [neighbor]) else vq)"

definition neighbors4 :: "position \<Rightarrow> position list" where
  "neighbors4 current =
     (let x = fst current; y = snd current in [(x + 1, y), (x - 1, y), (x, y + 1), (x, y - 1)])"

definition bfs_measure :: "position list \<Rightarrow> position list \<times> position list \<Rightarrow> nat" where
  "bfs_measure sp vq = 2 * card (set sp - set (fst vq)) + length (snd vq)"

lemma visit_neighbor_measure:
  "bfs_measure sp (visit_neighbor sp n vq) \<le> bfs_measure sp vq"
proof (cases "n \<in> set sp \<and> n \<notin> set (fst vq)")
  case True
  then have mem: "n \<in> set sp - set (fst vq)" by simp
  have eq: "set sp - set (fst vq @ [n]) = (set sp - set (fst vq)) - {n}" by auto
  have "card ((set sp - set (fst vq)) - {n}) = card (set sp - set (fst vq)) - 1"
    using mem by simp
  moreover have "0 < card (set sp - set (fst vq))"
    using mem by (metis card_gt_0_iff empty_iff finite_Diff finite_set)
  ultimately show ?thesis
    using True by (simp add: bfs_measure_def visit_neighbor_def eq)
next
  case False
  then show ?thesis by (auto simp add: visit_neighbor_def)
qed

lemma fold_visit_neighbor_measure:
  "bfs_measure sp (fold (visit_neighbor sp) ns vq) \<le> bfs_measure sp vq"
proof (induction ns arbitrary: vq)
  case Nil
  then show ?case by simp
next
  case (Cons n ns)
  have "bfs_measure sp (fold (visit_neighbor sp) ns (visit_neighbor sp n vq))
          \<le> bfs_measure sp (visit_neighbor sp n vq)"
    by (rule Cons.IH)
  also have "\<dots> \<le> bfs_measure sp vq" by (rule visit_neighbor_measure)
  finally show ?case by simp
qed

function connected_loop :: "position list \<Rightarrow> position list \<Rightarrow> position list \<Rightarrow> position list" where
  "connected_loop selected_positions visited [] = visited"
| "connected_loop selected_positions visited (current # queue) =
     (let vq = fold (visit_neighbor selected_positions) (neighbors4 current) (visited, queue)
      in connected_loop selected_positions (fst vq) (snd vq))"
  by pat_completeness auto
termination
proof (relation "measure (\<lambda>(sp, visited, queue). bfs_measure sp (visited, queue))")
  show "wf (measure (\<lambda>(sp, visited, queue). bfs_measure sp (visited, queue)))" by simp
next
  fix sp visited current :: "position list" and c :: position and queue vq
  assume vq: "vq = fold (visit_neighbor sp) (neighbors4 c) (visited, queue)"
  have "bfs_measure sp vq \<le> bfs_measure sp (visited, queue)"
    unfolding vq by (rule fold_visit_neighbor_measure)
  also have "\<dots> < bfs_measure sp (visited, c # queue)"
    by (simp add: bfs_measure_def)
  finally show "((sp, fst vq, snd vq), (sp, visited, c # queue))
      \<in> measure (\<lambda>(sp, visited, queue). bfs_measure sp (visited, queue))"
    by simp
qed

text \<open>
  \<open>set(self.get_selected_positions())\<close> is the duplicate-free list \<open>remdups\<close>; its first
  element stands for \<open>list(selected_positions)[0]\<close>.
\<close>

definition is_connected :: "BlockSet \<Rightarrow> bool" where
  "is_connected bs =
     (if length (selected_blocks bs) \<le> 1 then True
      else (case remdups (get_selected_positions bs) of
              [] \<Rightarrow> True
            | start_pos # rest \<Rightarrow>
                length (connected_loop (start_pos # rest) [start_pos] [start_pos])
                  = length (start_pos # rest)))"


section \<open>Constraint checks (constraints.py)\<close>

subsection \<open>glue\<close>

definition check_glue :: "BlockSet \<Rightarrow> bool" where
  "check_glue bs = (if get_all_positions bs = [] then False else is_connected bs)"

subsection \<open>mirror and symmetry\<close>

text \<open>
  \<open>{block.pos: block for block in blocks}\<close>: a later block at the same position
  replaces an earlier one.
\<close>

definition pos_to_block_of :: "Block list \<Rightarrow> (position \<rightharpoonup> Block)" where
  "pos_to_block_of bl = map_of (rev (map (\<lambda>b. (pos b, b)) bl))"

definition min_of :: "int \<Rightarrow> int list \<Rightarrow> int" where
  "min_of x xs = fold min xs x"

definition max_of :: "int \<Rightarrow> int list \<Rightarrow> int" where
  "max_of x xs = fold max xs x"

text \<open>\<open>int(r)\<close> on a float truncates toward zero; \<open>r.is_integer()\<close>.\<close>

definition py_int :: "rat \<Rightarrow> int" where
  "py_int r = (if 0 \<le> r then \<lfloor>r\<rfloor> else \<lceil>r\<rceil>)"

definition is_integer :: "rat \<Rightarrow> bool" where
  "is_integer r = (of_int \<lfloor>r\<rfloor> = r)"

text \<open>
  The body of the loop of \<open>_is_horizontally_symmetric_blocks\<close> for one block: False is
  the loop's \<open>return False\<close>, True lets the loop go on. The branches are kept as the
  source nests them: the comparison of the face data sits under \<open>block.type != symmetric_block.type\<close>.
\<close>

definition horizontal_block_ok :: "rat \<Rightarrow> (position \<rightharpoonup> Block) \<Rightarrow> Block \<Rightarrow> bool" where
  "horizontal_block_ok center_x pos_to_block block =
     (let x = fst (pos block); y = snd (pos block);
          symmetric_x = 2 * center_x - of_int x;
          symmetric_pos = (py_int symmetric_x, y)
      in case pos_to_block symmetric_pos of
           None \<Rightarrow> False
         | Some symmetric_block \<Rightarrow>
             (if btype block \<noteq> btype symmetric_block then
                (if btype block = 3 \<and> btype symmetric_block = 3 then
                   (if length (detailed_information block) \<ge> 4
                       \<and> length (detailed_information symmetric_block) \<ge> 4 then
                      (if detailed_information block ! 0 \<noteq> detailed_information symmetric_block ! 1
                          \<or> detailed_information block ! 1 \<noteq> detailed_information symmetric_block ! 0
                          \<or> detailed_information block ! 2 \<noteq> detailed_information symmetric_block ! 2
                          \<or> detailed_information block ! 3 \<noteq> detailed_information symmetric_block ! 3
                       then False else True)
                    else True)
                 else False)
              else True))"

definition is_horizontally_symmetric_blocks :: "Block list \<Rightarrow> bool" where
  "is_horizontally_symmetric_blocks bl =
     (case map (\<lambda>b. fst (pos b)) bl of
        [] \<Rightarrow> True
      | x0 # x_coords \<Rightarrow>
          (let center_x = of_int (min_of x0 x_coords + max_of x0 x_coords) / 2
           in list_all (horizontal_block_ok center_x (pos_to_block_of bl)) bl))"

definition vertical_block_ok :: "rat \<Rightarrow> (position \<rightharpoonup> Block) \<Rightarrow> Block \<Rightarrow> bool" where
  "vertical_block_ok center_y pos_to_block block =
     (let x = fst (pos block); y = snd (pos block);
          symmetric_y = 2 * center_y - of_int y;
          symmetric_pos = (x, py_int symmetric_y)
      in case pos_to_block symmetric_pos of
           None \<Rightarrow> False
         | Some symmetric_block \<Rightarrow>
             (if btype block \<noteq> btype symmetric_block then
                (if btype block = 3 \<and> btype symmetric_block = 3 then
                   (if length (detailed_information block) \<ge> 4
                       \<and> length (detailed_information symmetric_block) \<ge> 4 then
                      (if detailed_information block ! 0 \<noteq> detailed_information symmetric_block ! 0
                          \<or> detailed_information block ! 1 \<noteq> detailed_information symmetric_block ! 1
                          \<or> detailed_information block ! 2 \<noteq> detailed_information symmetric_block ! 3
                          \<or> detailed_information block ! 3 \<noteq> detailed_information symmetric_block ! 2
                       then False else True)
                    else True)
                 else False)
              else True))"

definition is_vertically_symmetric_blocks :: "Block list \<Rightarrow> bool" where
  "is_vertically_symmetric_blocks bl =
     (case map (\<lambda>b. snd (pos b)) bl of
        [] \<Rightarrow> True
      | y0 # y_coords \<Rightarrow>
          (let center_y = of_int (min_of y0 y_coords + max_of y0 y_coords) / 2
           in list_all (vertical_block_ok center_y (pos_to_block_of bl)) bl))"

definition diagonal1_block_ok :: "rat \<Rightarrow> (position \<rightharpoonup> Block) \<Rightarrow> Block \<Rightarrow> bool" where
  "diagonal1_block_ok center_d pos_to_block block =
     (let x = fst (pos block); y = snd (pos block);
          x_sym = of_int y + center_d;
          y_sym = of_int x - center_d
      in if \<not> (is_integer x_sym \<and> is_integer y_sym) then False
         else (case pos_to_block (py_int x_sym, py_int y_sym) of
                 None \<Rightarrow> False
               | Some symmetric_block \<Rightarrow>
                   (if btype block \<noteq> btype symmetric_block then False else True)))"

definition is_diagonal1_symmetric_blocks :: "Block list \<Rightarrow> bool" where
  "is_diagonal1_symmetric_blocks bl =
     (case map (\<lambda>b. fst (pos b) - snd (pos b)) bl of
        [] \<Rightarrow> True
      | d0 # d_values \<Rightarrow>
          (let center_d = of_int (min_of d0 d_values + max_of d0 d_values) / 2
           in list_all (diagonal1_block_ok center_d (pos_to_block_of bl)) bl))"

definition diagonal2_block_ok :: "rat \<Rightarrow> (position \<rightharpoonup> Block) \<Rightarrow> Block \<Rightarrow> bool" where
  "diagonal2_block_ok center_s pos_to_block block =
     (let x = fst (pos block); y = snd (pos block);
          x_sym = center_s - of_int y;
          y_sym = center_s - of_int x
      in if \<not> (is_integer x_sym \<and> is_integer y_sym) then False
         else (case pos_to_block (py_int x_sym, py_int y_sym) of
                 None \<Rightarrow> False
               | Some symmetric_block \<Rightarrow>
                   (if btype block \<noteq> btype symmetric_block then False else True)))"

definition is_diagonal2_symmetric_blocks :: "Block list \<Rightarrow> bool" where
  "is_diagonal2_symmetric_blocks bl =
     (case map (\<lambda>b. fst (pos b) + snd (pos b)) bl of
        [] \<Rightarrow> True
      | s0 # s_values \<Rightarrow>
          (let center_s = of_int (min_of s0 s_values + max_of s0 s_values) / 2
           in list_all (diagonal2_block_ok center_s (pos_to_block_of bl)) bl))"

definition check_mirror :: "BlockSet \<Rightarrow> bool" where
  "check_mirror bs =
     (if length (blocks bs) \<le> 1 then True
      else (is_horizontally_symmetric_blocks (blocks bs)
            \<or> is_vertically_symmetric_blocks (blocks bs)
            \<or> is_diagonal1_symmetric_blocks (blocks bs)
            \<or> is_diagonal2_symmetric_blocks (blocks bs)))"

definition check_symmetry :: "BlockSet \<Rightarrow> bool" where
  "check_symmetry bs = check_mirror bs"

subsection \<open>pyramid\<close>

definition check_pyramid_adjacent ::
  "position \<Rightarrow> int \<Rightarrow> (position \<rightharpoonup> Block) \<Rightarrow> bool \<Rightarrow> string \<Rightarrow> bool" where
  "check_pyramid_adjacent p requirement pos_to_block is_movement_stage face_checked =
     (if requirement = 0 \<and> pos_to_block p = None then True
      else (case pos_to_block p of
              Some adjacent_block \<Rightarrow>
                (if btype adjacent_block \<in> {1, 2} then
                   (requirement = 1 \<and> btype adjacent_block = 1)
                   \<or> (requirement = 2 \<and> btype adjacent_block = 2)
                 else if btype adjacent_block = 3
                         \<and> length (detailed_information adjacent_block) \<ge> 4 then
                   (if face_checked = ''bottom'' then
                      detailed_information adjacent_block ! 0 = requirement
                    else if face_checked = ''top'' then
                      detailed_information adjacent_block ! 1 = requirement
                    else if face_checked = ''right'' then
                      detailed_information adjacent_block ! 2 = requirement
                    else if face_checked = ''left'' then
                      detailed_information adjacent_block ! 3 = requirement
                    else False)
                 else False)
            | None \<Rightarrow>
                (if is_movement_stage
                    \<and> face_checked \<in> {''top'', ''bottom'', ''left'', ''right''}
                    \<and> requirement \<noteq> 0
                 then False else True)))"

text \<open>
  The body of the loop over the pyramid blocks, shared by the two stages (the source
  repeats it with \<open>False\<close> and \<open>True\<close> for the stage flag).
\<close>

definition pyramid_block_ok :: "(position \<rightharpoonup> Block) \<Rightarrow> bool \<Rightarrow> Block \<Rightarrow> bool" where
  "pyramid_block_ok pos_to_block is_movement_stage block =
     (if btype block = 3 \<and> length (detailed_information block) \<ge> 4 then
        (let top_req = detailed_information block ! 0;
             bottom_req = detailed_information block ! 1;
             left_req = detailed_information block ! 2;
             right_req = detailed_information block ! 3;
             x = fst (pos block); y = snd (pos block)
         in if \<not> check_pyramid_adjacent (x, y - 1) top_req pos_to_block is_movement_stage ''top''
            then False
            else if \<not> check_pyramid_adjacent (x, y + 1) bottom_req pos_to_block is_movement_stage ''bottom''
            then False
            else if \<not> check_pyramid_adjacent (x - 1, y) left_req pos_to_block is_movement_stage ''left''
            then False
            else if \<not> check_pyramid_adjacent (x + 1, y) right_req pos_to_block is_movement_stage ''right''
            then False
            else True)
      else True)"

definition check_pyramid_selection :: "BlockSet \<Rightarrow> bool" where
  "check_pyramid_selection bs =
     (let selected_blocks = filter selected (blocks bs)
      in if selected_blocks = [] then True
         else list_all (pyramid_block_ok (pos_to_block_of selected_blocks) False) selected_blocks)"

definition check_pyramid_movement :: "BlockSet \<Rightarrow> bool" where
  "check_pyramid_movement bs =
     (if blocks bs = [] then True
      else list_all (pyramid_block_ok (pos_to_block_of (blocks bs)) True) (blocks bs))"

definition check_pyramid :: "BlockSet \<Rightarrow> bool" where
  "check_pyramid bs = check_pyramid_movement bs"


subsection \<open>sail\<close>

type_synonym node = "rat \<times> rat"

text \<open>
  One \<open>if cell.type == 3 and cell.detailed_information[i] == 2\<close> of the loop that
  collects the nodes: the index is read only for a block of type 3, and reading past
  the end of the list raises IndexError.
\<close>

definition face_node :: "Block \<Rightarrow> nat \<Rightarrow> node \<Rightarrow> error + node list" where
  "face_node cell i nd =
     (if btype cell = 3 then
        bind_err (py_index (detailed_information cell) i) (\<lambda>d. Inr (if d = 2 then [nd] else []))
      else Inr [])"

definition cell_nodes :: "Block \<Rightarrow> error + node list" where
  "cell_nodes cell =
     (let x = of_int (fst (pos cell)); y = of_int (snd (pos cell));
          n = (if btype cell = 2 then [(x, y)] else [])
      in bind_err (face_node cell 0 (x, y - 4 / 10)) (\<lambda>n0.
         bind_err (face_node cell 1 (x, y + 4 / 10)) (\<lambda>n1.
         bind_err (face_node cell 2 (x - 4 / 10, y)) (\<lambda>n2.
         bind_err (face_node cell 3 (x + 4 / 10, y)) (\<lambda>n3.
         Inr (n @ n0 @ n1 @ n2 @ n3))))))"

fun sail_nodes :: "Block list \<Rightarrow> error + node list" where
  "sail_nodes [] = Inr []"
| "sail_nodes (cell # cells) =
     bind_err (cell_nodes cell) (\<lambda>ns. bind_err (sail_nodes cells) (\<lambda>rest. Inr (ns @ rest)))"

definition sq_dist :: "node \<Rightarrow> node \<Rightarrow> rat" where
  "sq_dist point neighbor = (fst point - fst neighbor)\<^sup>2 + (snd point - snd neighbor)\<^sup>2"

definition sail_adjacent :: "node \<Rightarrow> node \<Rightarrow> bool" where
  "sail_adjacent point neighbor =
     (if sq_dist point neighbor \<le> (61 / 100)\<^sup>2 then True
      else if fst point = of_int (py_int (fst point)) \<and> snd point = of_int (py_int (snd point))
      then sq_dist point neighbor = 1
      else False)"

text \<open>
  \<open>adjacency[current]\<close>: the dictionary has one key per distinct point, and the double
  loop appends to it once for every occurrence of the point in \<open>nodes\<close>.
\<close>

definition adjacency :: "node list \<Rightarrow> node \<Rightarrow> node list" where
  "adjacency nodes current =
     concat (map (\<lambda>point. filter (sail_adjacent point) nodes) (filter (\<lambda>point. point = current) nodes))"

lemma set_adjacency: "set (adjacency nodes current) \<subseteq> set nodes"
  by (auto simp add: adjacency_def)

function sail_loop :: "node list \<Rightarrow> node list \<Rightarrow> node list \<Rightarrow> node list" where
  "sail_loop nodes visited [] = visited"
| "sail_loop nodes visited (current # queue) =
     (if current \<notin> set visited
      then sail_loop nodes (visited @ [current])
             (queue @ filter (\<lambda>n. n \<notin> set (visited @ [current])) (adjacency nodes current))
      else sail_loop nodes visited queue)"
  by pat_completeness auto
termination
proof (relation "measures [\<lambda>(nodes, visited, queue). card ((set nodes \<union> set queue) - set visited),
                           \<lambda>(nodes, visited, queue). length queue]")
  show "wf (measures [\<lambda>(nodes, visited, queue). card ((set nodes \<union> set queue) - set visited),
                      \<lambda>(nodes, visited, queue). length queue])"
    by simp
next
  fix nodes visited queue :: "node list" and current :: node
  assume new: "current \<notin> set visited"
  let ?q = "queue @ filter (\<lambda>n. n \<notin> set (visited @ [current])) (adjacency nodes current)"
  have sub: "(set nodes \<union> set ?q) - set (visited @ [current])
               \<subseteq> ((set nodes \<union> set (current # queue)) - set visited) - {current}"
    using set_adjacency [of nodes current] by auto
  have mem: "current \<in> (set nodes \<union> set (current # queue)) - set visited"
    using new by simp
  have fin: "finite ((set nodes \<union> set (current # queue)) - set visited)" by simp
  have "card ((set nodes \<union> set ?q) - set (visited @ [current]))
          \<le> card (((set nodes \<union> set (current # queue)) - set visited) - {current})"
    using sub fin by (intro card_mono) auto
  also have "\<dots> < card ((set nodes \<union> set (current # queue)) - set visited)"
    using mem fin by (intro card_Diff1_less)
  finally show "((nodes, visited @ [current], ?q), (nodes, visited, current # queue))
      \<in> measures [\<lambda>(nodes, visited, queue). card ((set nodes \<union> set queue) - set visited),
                  \<lambda>(nodes, visited, queue). length queue]"
    by simp
next
  fix nodes visited queue :: "node list" and current :: node
  assume "\<not> current \<notin> set visited"
  then have old: "current \<in> set visited" by simp
  have "(set nodes \<union> set (current # queue)) - set visited = (set nodes \<union> set queue) - set visited"
    using old by auto
  then show "((nodes, visited, queue), (nodes, visited, current # queue))
      \<in> measures [\<lambda>(nodes, visited, queue). card ((set nodes \<union> set queue) - set visited),
                  \<lambda>(nodes, visited, queue). length queue]"
    by simp
qed

definition check_sail :: "BlockSet \<Rightarrow> error + bool" where
  "check_sail bs =
     bind_err (sail_nodes (blocks bs)) (\<lambda>nodes.
       if length nodes < 2 then Inr True
       else (case nodes of
               [] \<Rightarrow> Inr True
             | first # others \<Rightarrow> Inr (length (sail_loop nodes [] [first]) = length nodes)))"

subsection \<open>ConstraintChecker.check_constraints\<close>

text \<open>
  The result dictionary keeps its keys in the order of their first insertion; assigning
  to a key that is present replaces its value in place.
\<close>

fun dict_set :: "string \<Rightarrow> bool \<Rightarrow> (string \<times> bool) list \<Rightarrow> (string \<times> bool) list" where
  "dict_set k v [] = [(k, v)]"
| "dict_set k v (p # ps) = (if fst p = k then (k, v) # ps else p # dict_set k v ps)"

text \<open>
  The value stored for one name: first the registered check, whatever the stage (it is
  the call that can raise for sail), then the overrides for the stage in the order of
  the source.
\<close>

definition registered_check :: "BlockSet \<Rightarrow> string \<Rightarrow> error + bool" where
  "registered_check bs constraint_name =
     (if constraint_name = ''glue'' then Inr (check_glue bs)
      else if constraint_name = ''mirror'' then Inr (check_mirror bs)
      else if constraint_name = ''symmetry'' then Inr (check_symmetry bs)
      else if constraint_name = ''pyramid'' then Inr (check_pyramid bs)
      else if constraint_name = ''sail'' then check_sail bs
      else Inr True)"

definition check_constraint :: "BlockSet \<Rightarrow> string \<Rightarrow> string \<Rightarrow> error + bool" where
  "check_constraint bs stage constraint_name =
     bind_err (registered_check bs constraint_name) (\<lambda>r0.
       let r1 = (if constraint_name = ''mirror'' \<and> stage = ''selection'' then True else r0);
           r2 = (if constraint_name = ''glue'' \<and> stage = ''movement'' then True else r1);
           r3 = (if constraint_name = ''pyramid'' \<and> stage = ''selection''
                 then check_pyramid_selection bs else r2);
           r4 = (if constraint_name = ''pyramid'' \<and> stage = ''movement''
                 then check_pyramid_movement bs else r3)
       in bind_err (if constraint_name = ''sail'' \<and> stage = ''movement''
                    then check_sail bs else Inr r4) (\<lambda>r5.
            Inr (if constraint_name = ''sail'' \<and> stage = ''selection'' then True else r5)))"

fun check_constraints_loop ::
  "BlockSet \<Rightarrow> string \<Rightarrow> string list \<Rightarrow> (string \<times> bool) list \<Rightarrow> error + (string \<times> bool) list" where
  "check_constraints_loop bs stage [] results = Inr results"
| "check_constraints_loop bs stage (constraint_name # names) results =
     bind_err (check_constraint bs stage constraint_name) (\<lambda>r.
       check_constraints_loop bs stage names (dict_set constraint_name r results))"

definition check_constraints :: "BlockSet \<Rightarrow> string list \<Rightarrow> string \<Rightarrow> error + (string \<times> bool) list" where
  "check_constraints bs constraint_names stage = check_constraints_loop bs stage constraint_names []"

text \<open>\<open>[name for name, result in results.items() if not result]\<close>\<close>

definition failed_names :: "(string \<times> bool) list \<Rightarrow> string list" where
  "failed_names results = map fst (filter (\<lambda>p. \<not> snd p) results)"


section \<open>The session: Game and UI state (game.py, ui.py)\<close>

text \<open>
  One record holds the fields of the UI object and of the Game object that the
  selection and movement logic uses, for a level that has been loaded:
  \<open>ui.current_blockset\<close> and \<open>current_level\<close> are set, so the guards
  \<open>if not self.ui.current_blockset\<close> and \<open>if self.current_level\<close> take their
  non-returning side. \<open>constraints\<close> is \<open>current_level.constraints\<close>,
  \<open>completed\<close> is \<open>current_level.completed\<close>, and \<open>on_selection_change\<close> tells
  whether the block set's callback is bound to \<open>Game._save_state\<close> (as \<open>_load_level\<close>
  does) or is None. An attribute that is None or was never assigned is \<open>None\<close> here.
\<close>

type_synonym snapshot = "(position \<times> bool) list \<times> bool"

record Session =
  current_state :: string
  current_blockset :: BlockSet
  on_selection_change :: bool
  constraints :: "string list"
  completed :: bool
  failed_constraints :: "string list"
  selection_confirmed :: bool
  dragging :: bool
  drag_start :: "(int \<times> int) option"
  drag_end :: "(int \<times> int) option"
  moving_blocks :: bool
  move_start_pos :: "(int \<times> int) option"
  original_positions :: "position list option"
  temp_selected_block_set :: "Block list option"
  original_colors :: "rgb list option"
  margin_left :: int
  margin_top :: int
  margin_right :: int
  margin_bottom :: int
  grid_w :: int
  grid_h :: int
  cell_size :: int
  grid_offset :: "int \<times> int"
  history :: "snapshot list"
  history_index :: int

subsection \<open>History (Game._save_state, _restore_state, _undo, _redo)\<close>

text \<open>Python's \<open>xs[:k]\<close>, \<open>xs[-20:]\<close> and \<open>xs[i]\<close> for an integer that may be negative.\<close>

definition py_take :: "int \<Rightarrow> 'a list \<Rightarrow> 'a list" where
  "py_take k xs = (if 0 \<le> k then take (nat k) xs else take (nat (int (length xs) + k)) xs)"

definition py_last_n :: "nat \<Rightarrow> 'a list \<Rightarrow> 'a list" where
  "py_last_n n xs = drop (length xs - n) xs"

definition py_get :: "'a list \<Rightarrow> int \<Rightarrow> error + 'a" where
  "py_get xs i =
     (if 0 \<le> i \<and> i < int (length xs) then Inr (xs ! nat i)
      else if i < 0 \<and> - int (length xs) \<le> i then Inr (xs ! nat (int (length xs) + i))
      else Inl IndexError)"

definition block_states :: "BlockSet \<Rightarrow> (position \<times> bool) list" where
  "block_states bs = map (\<lambda>block. (pos block, selected block)) (blocks bs)"

definition save_state :: "Session \<Rightarrow> Session" where
  "save_state s =
     (let state = block_states (current_blockset s);
          state_confirmed = selection_confirmed s;
          h = py_take (history_index s + 1) (history s) @ [(state, state_confirmed)];
          s1 = s\<lparr>history := h, history_index := int (length h) - 1\<rparr>
      in if length (history s1) > 20
         then (let h' = py_last_n 20 (history s1)
               in s1\<lparr>history := h', history_index := int (length h') - 1\<rparr>)
         else s1)"

text \<open>\<open>if self.on_selection_change: self.on_selection_change()\<close>\<close>

definition fire_selection_change :: "Session \<Rightarrow> Session" where
  "fire_selection_change s = (if on_selection_change s then save_state s else s)"

definition set_add :: "nat \<Rightarrow> nat list \<Rightarrow> nat list" where
  "set_add i sel = (if i \<in> set sel then sel else sel @ [i])"

definition set_discard :: "nat \<Rightarrow> nat list \<Rightarrow> nat list" where
  "set_discard i sel = filter (\<lambda>j. j \<noteq> i) sel"

definition update_block :: "nat \<Rightarrow> (Block \<Rightarrow> Block) \<Rightarrow> Block list \<Rightarrow> Block list" where
  "update_block i f bl = (if i < length bl then bl[i := f (bl ! i)] else bl)"

fun restore_blocks :: "nat \<Rightarrow> (position \<times> bool) list \<Rightarrow> BlockSet \<Rightarrow> BlockSet" where
  "restore_blocks i [] bs = bs"
| "restore_blocks i (ps # state_blocks) bs =
     restore_blocks (i + 1) state_blocks
       (if i < length (blocks bs)
        then bs\<lparr>blocks := update_block i (\<lambda>block. block\<lparr>pos := fst ps, selected := snd ps\<rparr>) (blocks bs),
                selected_blocks := (if snd ps then set_add i (selected_blocks bs)
                                    else set_discard i (selected_blocks bs))\<rparr>
        else bs)"

definition restore_state :: "snapshot \<Rightarrow> Session \<Rightarrow> Session" where
  "restore_state state s =
     s\<lparr>current_blockset := restore_blocks 0 (fst state) (current_blockset s),
       selection_confirmed := snd state,
       failed_constraints := []\<rparr>"

definition undo :: "Session \<Rightarrow> error + Session" where
  "undo s =
     (if history_index s > 0 then
        (let s1 = s\<lparr>history_index := history_index s - 1\<rparr>
         in bind_err (py_get (history s1) (history_index s1)) (\<lambda>state.
              Inr ((restore_state state s1)\<lparr>selection_confirmed := False, failed_constraints := []\<rparr>)))
      else Inr s)"

definition redo :: "Session \<Rightarrow> error + Session" where
  "redo s =
     (if history_index s < int (length (history s)) - 1 then
        (let s1 = s\<lparr>history_index := history_index s + 1\<rparr>
         in bind_err (py_get (history s1) (history_index s1)) (\<lambda>state.
              Inr ((restore_state state s1)\<lparr>selection_confirmed := False, failed_constraints := []\<rparr>)))
      else Inr s)"

subsection \<open>Selection (BlockSet.select_block and friends, with the callback)\<close>

definition select_block :: "nat \<Rightarrow> Session \<Rightarrow> Session" where
  "select_block i s =
     (let bs = current_blockset s
      in if i < length (blocks bs) then
           fire_selection_change
             (s\<lparr>current_blockset :=
                  bs\<lparr>blocks := update_block i (\<lambda>block. block\<lparr>selected := True\<rparr>) (blocks bs),
                     selected_blocks := set_add i (selected_blocks bs)\<rparr>\<rparr>)
         else s)"

definition deselect_block :: "nat \<Rightarrow> Session \<Rightarrow> Session" where
  "deselect_block i s =
     (let bs = current_blockset s
      in if i \<in> set (selected_blocks bs) then
           fire_selection_change
             (s\<lparr>current_blockset :=
                  bs\<lparr>blocks := update_block i (\<lambda>block. block\<lparr>selected := False\<rparr>) (blocks bs),
                     selected_blocks := set_discard i (selected_blocks bs)\<rparr>\<rparr>)
         else s)"

definition in_area :: "position \<Rightarrow> position \<Rightarrow> position \<Rightarrow> bool" where
  "in_area start_pos end_pos p =
     (let min_x = min (fst start_pos) (fst end_pos); min_y = min (snd start_pos) (snd end_pos);
          max_x = max (fst start_pos) (fst end_pos); max_y = max (snd start_pos) (snd end_pos)
      in min_x \<le> fst p \<and> fst p \<le> max_x \<and> min_y \<le> snd p \<and> snd p \<le> max_y)"

text \<open>
  The loop of \<open>select_blocks_in_area\<close> over the indices of \<open>blocks\<close>; selecting does
  not move a block, so the test reads the position in the current state.
\<close>

fun select_area_loop :: "position \<Rightarrow> position \<Rightarrow> nat list \<Rightarrow> Session \<Rightarrow> Session" where
  "select_area_loop start_pos end_pos [] s = s"
| "select_area_loop start_pos end_pos (i # rest) s =
     select_area_loop start_pos end_pos rest
       (if in_area start_pos end_pos (pos (blocks (current_blockset s) ! i))
        then select_block i s else s)"

definition select_blocks_in_area :: "position \<Rightarrow> position \<Rightarrow> Session \<Rightarrow> Session" where
  "select_blocks_in_area start_pos end_pos s =
     select_area_loop start_pos end_pos [0 ..< length (blocks (current_blockset s))] s"

definition clear_flags :: "nat list \<Rightarrow> Block list \<Rightarrow> Block list" where
  "clear_flags sel bl = fold (\<lambda>i. update_block i (\<lambda>block. block\<lparr>selected := False\<rparr>)) sel bl"

definition clear_selection :: "Session \<Rightarrow> Session" where
  "clear_selection s =
     (let bs = current_blockset s
      in fire_selection_change
           (s\<lparr>current_blockset :=
                bs\<lparr>blocks := clear_flags (selected_blocks bs) (blocks bs), selected_blocks := []\<rparr>\<rparr>))"

subsection \<open>Reset and confirm (Game._reset_level, UI.handle_click, Game._confirm_selection)\<close>

definition reset_level :: "Session \<Rightarrow> Session" where
  "reset_level s =
     (let bs = current_blockset s;
          s1 = s\<lparr>current_blockset := bs\<lparr>blocks := map (\<lambda>block. block\<lparr>pos := original_pos block\<rparr>) (blocks bs)\<rparr>\<rparr>;
          s2 = clear_selection s1
      in s2\<lparr>selection_confirmed := False, moving_blocks := False,
            history := [], history_index := - 1, failed_constraints := []\<rparr>)"

definition confirm_selection :: "Session \<Rightarrow> Session" where
  "confirm_selection s =
     (if selected_blocks (current_blockset s) = [] then s
      else (save_state (s\<lparr>selection_confirmed := True\<rparr>))\<lparr>failed_constraints := []\<rparr>)"

text \<open>
  A click on the confirm button: \<open>UI.handle_click\<close> evaluates the constraints of the
  selection stage; when none fails it returns the action \<open>confirm\<close>, which
  \<open>Game._handle_action\<close> passes to \<open>_confirm_selection\<close>; otherwise it returns
  \<open>reselection\<close>, for which \<open>_handle_action\<close> has no branch.
\<close>

definition confirm_click :: "Session \<Rightarrow> error + Session" where
  "confirm_click s =
     bind_err (check_constraints (current_blockset s) (constraints s) ''selection'') (\<lambda>results.
       let failed_now_constraints = failed_names results
       in if failed_now_constraints \<noteq> [] then
            Inr (s\<lparr>selection_confirmed := False, failed_constraints := failed_now_constraints\<rparr>)
          else
            Inr (confirm_selection (s\<lparr>selection_confirmed := True, failed_constraints := []\<rparr>)))"


subsection \<open>Toggling a cell (Game._handle_mouse_down, selection stage)\<close>

definition block_index_at :: "Block list \<Rightarrow> position \<Rightarrow> nat option" where
  "block_index_at bl p = List.find (\<lambda>j. pos (bl ! j) = p) [0 ..< length bl]"

definition toggle_cell :: "position \<Rightarrow> Session \<Rightarrow> Session" where
  "toggle_cell grid_pos s =
     (case block_index_at (blocks (current_blockset s)) grid_pos of
        None \<Rightarrow> s
      | Some j \<Rightarrow>
          (if j \<in> set (selected_blocks (current_blockset s))
           then (deselect_block j s)\<lparr>failed_constraints := []\<rparr>
           else (select_block j s)\<lparr>failed_constraints := []\<rparr>))"

subsection \<open>Dragging (UI.start_drag, UI.end_drag, Game._handle_mouse_up)\<close>

definition py_floordiv :: "int \<Rightarrow> int \<Rightarrow> error + int" where
  "py_floordiv a b = (if b \<noteq> 0 then Inr (a div b) else Inl ZeroDivisionError)"

text \<open>
  \<open>start_drag\<close> also records \<open>start_grid_pos\<close>, \<open>start_mouse_pos\<close> and the offset
  limits; they are read by \<open>update_drag\<close> only, which moves and recolours the temporary
  blocks, and are left out. The floor division that computes \<open>start_grid_pos\<close> is kept
  for its ZeroDivisionError. The temporary blocks are fresh Block objects.
\<close>

definition temp_block :: "Block \<Rightarrow> Block" where
  "temp_block block =
     \<lparr>btype = btype block, pos = pos block, color = color block,
      detailed_information = detailed_information block,
      selected = False, ghost = False, original_pos = pos block\<rparr>"

definition start_drag :: "int \<times> int \<Rightarrow> Session \<Rightarrow> error + Session" where
  "start_drag p s =
     (let s1 = s\<lparr>dragging := True, drag_start := Some p, drag_end := Some p\<rparr>;
          bs = current_blockset s1;
          sel = selected_blocks bs
      in if sel \<noteq> [] then
           bind_err (py_floordiv (fst p - margin_left s * cell_size s) (cell_size s)) (\<lambda>start_grid_x.
           bind_err (py_floordiv (snd p - (margin_top s * cell_size s + 50)) (cell_size s)) (\<lambda>start_grid_y.
             Inr (s1\<lparr>moving_blocks := True,
                     move_start_pos := Some p,
                     original_positions := Some (map (\<lambda>i. pos (blocks bs ! i)) sel),
                     temp_selected_block_set := Some (map (\<lambda>i. temp_block (blocks bs ! i)) sel),
                     original_colors := Some (map (\<lambda>i. color (blocks bs ! i)) sel),
                     current_blockset :=
                       bs\<lparr>blocks := fold (\<lambda>i. update_block i (\<lambda>block. block\<lparr>selected := True, ghost := True\<rparr>))
                                      sel (blocks bs)\<rparr>\<rparr>)))
         else Inr s1)"

definition out_of_bounds :: "Session \<Rightarrow> position \<Rightarrow> bool" where
  "out_of_bounds s p =
     (fst p < - margin_left s \<or> fst p \<ge> grid_w s - margin_right s
      \<or> snd p < - margin_top s \<or> snd p \<ge> grid_h s - margin_bottom s)"

definition overlaps_unselected :: "BlockSet \<Rightarrow> position \<Rightarrow> bool" where
  "overlaps_unselected bs p =
     list_ex (\<lambda>j. j \<notin> set (selected_blocks bs) \<and> pos (blocks bs ! j) = p) [0 ..< length (blocks bs)]"

definition overlaps_unselected_solid :: "BlockSet \<Rightarrow> position \<Rightarrow> bool" where
  "overlaps_unselected_solid bs p =
     list_ex (\<lambda>j. j \<notin> set (selected_blocks bs) \<and> \<not> ghost (blocks bs ! j) \<and> pos (blocks bs ! j) = p)
       [0 ..< length (blocks bs)]"

definition shifted :: "position \<Rightarrow> int \<times> int \<Rightarrow> position" where
  "shifted orig g = (fst orig + fst g, snd orig + snd g)"

text \<open>
  The first validity loop of \<open>end_drag\<close> runs over \<open>self.original_positions\<close> and stops at
  the first position that is out of bounds or on an unselected block.
\<close>

definition first_validity :: "Session \<Rightarrow> int \<times> int \<Rightarrow> error + bool" where
  "first_validity s g =
     (case original_positions s of
        None \<Rightarrow> Inl TypeError
      | Some origs \<Rightarrow>
          Inr (list_all (\<lambda>orig. \<not> out_of_bounds s (shifted orig g)
                               \<and> \<not> overlaps_unselected (current_blockset s) (shifted orig g)) origs))"

fun reset_positions_loop :: "position list option \<Rightarrow> nat \<Rightarrow> nat list \<Rightarrow> Block list \<Rightarrow> error + Block list" where
  "reset_positions_loop origs i [] bl = Inr bl"
| "reset_positions_loop origs i (b # rest) bl =
     (case origs of
        None \<Rightarrow> Inl TypeError
      | Some os \<Rightarrow>
          bind_err (py_index os i) (\<lambda>p.
            reset_positions_loop origs (i + 1) rest (update_block b (\<lambda>block. block\<lparr>pos := p\<rparr>) bl)))"

definition screen_to_grid :: "Session \<Rightarrow> int \<times> int \<Rightarrow> error + position" where
  "screen_to_grid s screen_pos =
     bind_err (py_floordiv (fst screen_pos - fst (grid_offset s)) (cell_size s)) (\<lambda>grid_x.
     bind_err (py_floordiv (snd screen_pos - snd (grid_offset s)) (cell_size s)) (\<lambda>grid_y.
       Inr (grid_x, grid_y)))"

text \<open>
  The second validity loop runs over the selected blocks, reads
  \<open>self.original_positions[i]\<close> and then the local \<open>grid_offset_x\<close>, which is unbound
  when the first part of \<open>end_drag\<close> was skipped.
\<close>

fun final_validity_loop ::
  "Session \<Rightarrow> (int \<times> int) option \<Rightarrow> nat \<Rightarrow> nat list \<Rightarrow> error + bool" where
  "final_validity_loop s g i [] = Inr True"
| "final_validity_loop s g i (b # rest) =
     (case original_positions s of
        None \<Rightarrow> Inl TypeError
      | Some origs \<Rightarrow>
          bind_err (py_index origs i) (\<lambda>orig.
            case g of
              None \<Rightarrow> Inl UnboundLocalError
            | Some gv \<Rightarrow>
                (if out_of_bounds s (shifted orig gv) then Inr False
                 else if overlaps_unselected_solid (current_blockset s) (shifted orig gv) then Inr False
                 else final_validity_loop s g (i + 1) rest)))"

fun apply_loop ::
  "bool \<Rightarrow> rgb list \<Rightarrow> Block list option \<Rightarrow> position list option \<Rightarrow> nat \<Rightarrow> nat list \<Rightarrow> Block list
     \<Rightarrow> error + Block list" where
  "apply_loop is_valid colors temp origs i [] bl = Inr bl"
| "apply_loop is_valid colors temp origs i (b # rest) bl =
     (if i < length colors then
        bind_err
          (if is_valid
           then (case temp of None \<Rightarrow> Inl TypeError
                 | Some ts \<Rightarrow> bind_err (py_index ts i) (\<lambda>t. Inr (pos t)))
           else (case origs of None \<Rightarrow> Inl TypeError | Some os \<Rightarrow> py_index os i))
          (\<lambda>p. apply_loop is_valid colors temp origs (i + 1) rest
                  (update_block b (\<lambda>block. block\<lparr>color := colors ! i, pos := p,
                                                   selected := False, ghost := False\<rparr>) bl))
      else apply_loop is_valid colors temp origs (i + 1) rest bl)"

definition set_blocks :: "Block list \<Rightarrow> Session \<Rightarrow> Session" where
  "set_blocks bl s = s\<lparr>current_blockset := (current_blockset s)\<lparr>blocks := bl\<rparr>\<rparr>"

text \<open>
  \<open>end_drag\<close>, with the pointer position that \<open>pygame.mouse.get_pos()\<close> returns as an
  argument. The four parts follow the source: the offset and the first validity
  check; the reset of the positions (or the selection of the dragged area before the
  selection is confirmed); the final validity check; the loop that writes colour,
  position, \<open>selected = 0\<close> and \<open>ghost = False\<close> to the selected blocks; and the
  clearing of the drag state.
\<close>

definition end_drag_offset :: "int \<times> int \<Rightarrow> Session \<Rightarrow> error + bool \<times> (int \<times> int) option" where
  "end_drag_offset mouse s =
     (case move_start_pos s of
        Some start \<Rightarrow>
          (if moving_blocks s then
             bind_err (py_floordiv (fst mouse - fst start) (cell_size s)) (\<lambda>grid_offset_x.
             bind_err (py_floordiv (snd mouse - snd start) (cell_size s)) (\<lambda>grid_offset_y.
             bind_err (first_validity s (grid_offset_x, grid_offset_y)) (\<lambda>is_valid.
               Inr (is_valid, Some (grid_offset_x, grid_offset_y)))))
           else Inr (False, None))
      | None \<Rightarrow> Inr (False, None))"

definition end_drag_reset_or_select :: "bool \<Rightarrow> Session \<Rightarrow> error + Session" where
  "end_drag_reset_or_select is_valid s =
     (if \<not> is_valid then
        bind_err (reset_positions_loop (original_positions s) 0
                    (selected_blocks (current_blockset s)) (blocks (current_blockset s)))
          (\<lambda>bl. Inr (set_blocks bl s))
      else (case (drag_start s, drag_end s) of
              (Some ds, Some de) \<Rightarrow>
                (if dragging s \<and> \<not> selection_confirmed s then
                   bind_err (screen_to_grid s ds) (\<lambda>start_pos.
                   bind_err (screen_to_grid s de) (\<lambda>end_pos.
                     Inr (select_blocks_in_area start_pos end_pos s)))
                 else Inr s)
            | _ \<Rightarrow> Inr s))"

definition end_drag_apply :: "bool \<Rightarrow> Session \<Rightarrow> error + Session" where
  "end_drag_apply is_valid s =
     (case original_colors s of
        Some colors \<Rightarrow>
          (if selected_blocks (current_blockset s) \<noteq> [] then
             bind_err (apply_loop is_valid colors (temp_selected_block_set s) (original_positions s) 0
                         (selected_blocks (current_blockset s)) (blocks (current_blockset s)))
               (\<lambda>bl. Inr (set_blocks bl s))
           else Inr s)
      | None \<Rightarrow> Inr s)"

definition end_drag :: "int \<times> int \<Rightarrow> Session \<Rightarrow> error + Session" where
  "end_drag mouse s =
     bind_err (end_drag_offset mouse s) (\<lambda>(is_valid, g).
     bind_err (end_drag_reset_or_select is_valid s) (\<lambda>s1.
     bind_err (if selected_blocks (current_blockset s1) \<noteq> []
               then final_validity_loop s1 g 0 (selected_blocks (current_blockset s1))
               else Inr False) (\<lambda>is_valid2.
     bind_err (end_drag_apply is_valid2 s1) (\<lambda>s2.
       Inr (s2\<lparr>dragging := False, moving_blocks := False, drag_start := None, drag_end := None,
               move_start_pos := None, original_positions := None,
               temp_selected_block_set := None\<rparr>)))))"

text \<open>
  \<open>Game._handle_mouse_up\<close>: after \<open>end_drag\<close>, a confirmed selection is evaluated
  at the movement stage; a failure resets the level and reports the failing names,
  a success marks the level completed and shows the congratulation screen.
\<close>

definition handle_mouse_up :: "int \<times> int \<Rightarrow> Session \<Rightarrow> error + Session" where
  "handle_mouse_up mouse s =
     (if current_state s = ''in_level_chooseblock'' \<and> dragging s then
        bind_err (end_drag mouse s) (\<lambda>s1.
          let s2 = s1\<lparr>move_start_pos := None, original_positions := Some []\<rparr>
          in if selection_confirmed s2 then
               bind_err (check_constraints (current_blockset s2) (constraints s2) ''movement'') (\<lambda>results.
                 let failed_constraints' = failed_names results;
                     s3 = s2\<lparr>failed_constraints := failed_constraints'\<rparr>
                 in if failed_constraints' \<noteq> [] then
                      Inr ((reset_level s3)\<lparr>failed_constraints := failed_constraints'\<rparr>)
                    else
                      Inr (s3\<lparr>completed := True, current_state := ''congrats'',
                              failed_constraints := []\<rparr>))
             else Inr s2)
      else Inr s)"


subsection \<open>Loading a level (Level, UI.load_level, UI.set_level_layout, Game._load_level)\<close>

record Level =
  level_constraints :: "string list"
  level_blocks :: "Block list"
  level_margin_top :: int
  level_margin_bottom :: int
  level_margin_left :: int
  level_margin_right :: int

definition calc_max_rect :: "Block list \<Rightarrow> int \<times> int" where
  "calc_max_rect bl =
     (case bl of
        [] \<Rightarrow> (1, 1)
      | b # rest \<Rightarrow>
          (let xs = map (\<lambda>c. fst (pos c)) rest; ys = map (\<lambda>c. snd (pos c)) rest;
               width = max_of (fst (pos b)) xs - min_of (fst (pos b)) xs + 1;
               height = max_of (snd (pos b)) ys - min_of (snd (pos b)) ys + 1
           in (width, height)))"

text \<open>
  The session that \<open>Game._load_level\<close> leaves on a newly constructed game (window of
  1200 by 800, information column of 260, button column of 120): the block set is
  created from the level's blocks, the layout is computed by \<open>set_level_layout\<close>, the
  history is emptied and the callback is bound.
\<close>

definition load_level :: "Level \<Rightarrow> error + Session" where
  "load_level level =
     (let max_rect = calc_max_rect (level_blocks level);
          gw = fst max_rect + level_margin_left level + level_margin_right level;
          gh = snd max_rect + level_margin_top level + level_margin_bottom level
      in bind_err (py_floordiv (1200 - 260 - 120 - 40) gw) (\<lambda>cw.
         bind_err (py_floordiv (800 - 40) gh) (\<lambda>ch.
           let cs = min (min cw ch) 60;
               area_w = gw * cs; area_h = gh * cs;
               area_x = 260 + (1200 - 260 - 120 - area_w) div 2;
               area_y = (800 - area_h) div 2
           in Inr \<lparr>current_state = ''in_level_chooseblock'',
                   current_blockset = \<lparr>blocks = level_blocks level, selected_blocks = []\<rparr>,
                   on_selection_change = True,
                   constraints = level_constraints level,
                   completed = False,
                   failed_constraints = [],
                   selection_confirmed = False,
                   dragging = False,
                   drag_start = None,
                   drag_end = None,
                   moving_blocks = False,
                   move_start_pos = None,
                   original_positions = None,
                   temp_selected_block_set = None,
                   original_colors = None,
                   margin_left = level_margin_left level,
                   margin_top = level_margin_top level,
                   margin_right = level_margin_right level,
                   margin_bottom = level_margin_bottom level,
                   grid_w = gw,
                   grid_h = gh,
                   cell_size = cs,
                   grid_offset = (area_x + level_margin_left level * cs,
                                  area_y + level_margin_top level * cs),
                   history = [],
                   history_index = - 1\<rparr>)))"

text \<open>\<open>Block(block_type, pos, detailed_information=faces)\<close> with the constructor's defaults.\<close>

definition new_block :: "int \<Rightarrow> position \<Rightarrow> int list \<Rightarrow> Block" where
  "new_block t p faces =
     \<lparr>btype = t, pos = p, color = (0, 0, 0), detailed_information = faces,
      selected = False, ghost = False, original_pos = p\<rparr>"

definition new_level :: "string list \<Rightarrow> Block list \<Rightarrow> Level" where
  "new_level cs bl =
     \<lparr>level_constraints = cs, level_blocks = bl, level_margin_top = 4, level_margin_bottom = 4,
      level_margin_left = 4, level_margin_right = 4\<rparr>"


subsection \<open>A session with one block\<close>

text \<open>
  A level with the glue constraint and one solid block is loaded, the block is
  selected, the selection is confirmed, and then undo and redo are performed.
\<close>

abbreviation one_glue_level :: Level where
  "one_glue_level \<equiv> new_level [''glue''] [new_block 1 (0, 0) []]"

abbreviation selected_once :: Session where
  "selected_once \<equiv> select_block 0 (projr (load_level one_glue_level))"

abbreviation after_confirm :: Session where
  "after_confirm \<equiv> projr (confirm_click selected_once)"

abbreviation after_undo :: Session where
  "after_undo \<equiv> projr (undo after_confirm)"

abbreviation after_redo :: Session where
  "after_redo \<equiv> projr (redo after_undo)"

subsection \<open>Snapshots\<close>

text \<open>The entry that \<open>_save_state\<close> appends for a session.\<close>

definition snapshot_of :: "Session \<Rightarrow> snapshot" where
  "snapshot_of s = (block_states (current_blockset s), selection_confirmed s)"

subsection \<open>Agreement of the selected flags with the selected set\<close>

text \<open>
  Every block's \<open>selected\<close> flag is true exactly when the block is a member of
  \<open>selected_blocks\<close>.
\<close>

definition flags_agree :: "BlockSet \<Rightarrow> bool" where
  "flags_agree bs =
     list_all (\<lambda>i. selected (blocks bs ! i) = (i \<in> set (selected_blocks bs))) [0 ..< length (blocks bs)]"

subsection \<open>Faces of a pyramid\<close>




section \<open>Properties of the constraint checks\<close>

lemma bind_err_Inr [simp]: "bind_err (Inr v) f = f v"
  by (simp add: bind_err_def)

lemma bind_err_Inl [simp]: "bind_err (Inl e) f = Inl e"
  by (simp add: bind_err_def)






lemma sail_two_adjacent:
  "a \<noteq> b \<Longrightarrow> sail_adjacent a b \<Longrightarrow> length (sail_loop [a, b] [] [a]) = 2"
  by (simp add: adjacency_def)

lemma sail_two_apart:
  "a \<noteq> b \<Longrightarrow> \<not> sail_adjacent a b \<Longrightarrow> length (sail_loop [a, b] [] [a]) = 1"
  by (simp add: adjacency_def)

text \<open>
  C8: at the movement stage the sail check passes when its nodes are the two full
  cells (0,0) and (1,0) (squared distance 1 between integer nodes), fails when they
  are the two full cells (0,0) and (2,0), and passes whenever there are fewer than
  two nodes.
\<close>

theorem sail_examples:
  assumes "sail_nodes (blocks bs) = Inr ns"
  shows "(length ns = 2 \<and> set ns = {(0, 0), (1, 0)} \<longrightarrow> check_sail bs = Inr True)
       \<and> (length ns = 2 \<and> set ns = {(0, 0), (2, 0)} \<longrightarrow> check_sail bs = Inr False)
       \<and> (length ns < 2 \<longrightarrow> check_sail bs = Inr True)"
proof (intro conjI impI)
  assume h: "length ns = 2 \<and> set ns = {(0, 0), (1, 0)}"
  then obtain a b where ab: "ns = [a, b]"
    by (metis (no_types, opaque_lifting) length_0_conv length_Suc_conv numeral_2_eq_2)
  with h have "(a = (0, 0) \<and> b = (1, 0)) \<or> (a = (1, 0) \<and> b = (0, 0))"
    by (auto simp add: doubleton_eq_iff)
  then have "a \<noteq> b \<and> sail_adjacent a b"
    by (auto simp add: sail_adjacent_def sq_dist_def py_int_def power2_eq_square)
  then have "length (sail_loop [a, b] [] [a]) = 2" using sail_two_adjacent by blast
  then show "check_sail bs = Inr True" using assms ab by (simp add: check_sail_def)
next
  assume h: "length ns = 2 \<and> set ns = {(0, 0), (2, 0)}"
  then obtain a b where ab: "ns = [a, b]"
    by (metis (no_types, opaque_lifting) length_0_conv length_Suc_conv numeral_2_eq_2)
  with h have "(a = (0, 0) \<and> b = (2, 0)) \<or> (a = (2, 0) \<and> b = (0, 0))"
    by (auto simp add: doubleton_eq_iff)
  then have "a \<noteq> b \<and> \<not> sail_adjacent a b"
    by (auto simp add: sail_adjacent_def sq_dist_def py_int_def power2_eq_square)
  then have "length (sail_loop [a, b] [] [a]) = 1" using sail_two_apart by blast
  then show "check_sail bs = Inr False" using assms ab by (simp add: check_sail_def)
next
  assume "length ns < 2"
  then show "check_sail bs = Inr True" using assms by (simp add: check_sail_def)
qed


theorem sail_examples_witness:
  "check_sail \<lparr>blocks = [new_block 2 (0, 0) [], new_block 1 (0, 1) [], new_block 2 (1, 0) []], selected_blocks = []\<rparr> = Inr True
   \<and> check_sail \<lparr>blocks = [new_block 2 (2, 0) [], new_block 3 (5, 5) [1, 0, 0, 1], new_block 2 (0, 0) []], selected_blocks = []\<rparr> = Inr False
   \<and> check_sail \<lparr>blocks = [new_block 1 (0, 0) [], new_block 3 (1, 0) [0, 0, 2, 0]], selected_blocks = []\<rparr> = Inr True"
  using sail_examples [of "\<lparr>blocks = [new_block 2 (0, 0) [], new_block 1 (0, 1) [], new_block 2 (1, 0) []], selected_blocks = []\<rparr>" "[(0, 0), (1, 0)]"]
        sail_examples [of "\<lparr>blocks = [new_block 2 (2, 0) [], new_block 3 (5, 5) [1, 0, 0, 1], new_block 2 (0, 0) []], selected_blocks = []\<rparr>" "[(2, 0), (0, 0)]"]
        sail_examples [of "\<lparr>blocks = [new_block 1 (0, 0) [], new_block 3 (1, 0) [0, 0, 2, 0]], selected_blocks = []\<rparr>" "[(6 / 10, 0)]"]
  by (simp add: new_block_def cell_nodes_def face_node_def py_index_def insert_commute)











text \<open>
  C1: the glue check is evaluated on a level with one solid block of which nothing is
  selected. \<open>_check_glue\<close> tests the positions of all blocks for emptiness, not the
  selected ones, so the check passes, and a click on confirm sets
  \<open>selection_confirmed\<close> and reports no failing constraint.
\<close>

theorem glue_empty_selection_passes:
  "check_constraints \<lparr>blocks = [new_block 1 (0, 0) []], selected_blocks = []\<rparr> [''glue''] ''selection''
     = Inr [(''glue'', True)]
   \<and> bind_err (load_level (new_level [''glue''] [new_block 1 (0, 0) []]))
        (\<lambda>s0. bind_err (confirm_click s0)
           (\<lambda>s1. Inr (selected_blocks (current_blockset s0), selection_confirmed s1, failed_constraints s1)))
     = Inr ([], True, [])"
  by code_simp

lemma glue_selection_value:
  "check_constraints bs [''glue''] ''selection''
     = Inr [(''glue'', blocks bs \<noteq> [] \<and> is_connected bs)]"
  by (simp add: check_constraints_def check_constraint_def registered_check_def check_glue_def
      get_all_positions_def)

text \<open>
  C2: at the selection stage \<open>check_constraints\<close> overrides the result for the name
  mirror only; the name symmetry keeps the result of \<open>_check_symmetry\<close>, which is
  False on an asymmetric grid.
\<close>

theorem symmetry_checked_at_selection:
  "check_constraints
     \<lparr>blocks = [new_block 1 (0, 0) [], new_block 1 (1, 0) [], new_block 1 (2, 0) [], new_block 1 (0, 1) []],
      selected_blocks = []\<rparr> [''mirror'', ''symmetry''] ''selection''
     = Inr [(''mirror'', True), (''symmetry'', False)]"
  by code_simp

lemma symmetry_selection_value:
  "check_constraint bs ''selection'' ''symmetry'' = Inr (check_mirror bs)
   \<and> check_constraint bs ''selection'' ''mirror'' = Inr True"
  by (simp add: check_constraint_def registered_check_def check_symmetry_def)

lemma horizontal_block_ok_types_only:
  "horizontal_block_ok center_x m block =
     (case m (py_int (2 * center_x - of_int (fst (pos block))), snd (pos block)) of
        None \<Rightarrow> False | Some symmetric_block \<Rightarrow> btype block = btype symmetric_block)"
  by (auto simp add: horizontal_block_ok_def Let_def split: option.splits)

lemma vertical_block_ok_types_only:
  "vertical_block_ok center_y m block =
     (case m (fst (pos block), py_int (2 * center_y - of_int (snd (pos block)))) of
        None \<Rightarrow> False | Some symmetric_block \<Rightarrow> btype block = btype symmetric_block)"
  by (auto simp add: vertical_block_ok_def Let_def split: option.splits)

text \<open>
  C3: two pyramids mirrored in x whose faces are [1,0,0,0] and [0,0,0,0] do not
  satisfy the swap of top and bottom, yet the x-reflection check accepts the grid (and
  is the only one of the four reflections that does, so the mirror constraint passes);
  likewise for the y-reflection and the swap of left and right. The comparison of the
  face data is nested under a test that the two types differ and is never reached.
\<close>

theorem mirror_ignores_pyramid_faces:
  "is_horizontally_symmetric_blocks
     [new_block 3 (0, 0) [1, 0, 0, 0], new_block 3 (1, 0) [0, 0, 0, 0],
      new_block 1 (0, 1) [], new_block 1 (1, 1) []]
   \<and> check_constraints
       \<lparr>blocks = [new_block 3 (0, 0) [1, 0, 0, 0], new_block 3 (1, 0) [0, 0, 0, 0],
                  new_block 1 (0, 1) [], new_block 1 (1, 1) []], selected_blocks = []\<rparr>
       [''mirror''] ''movement'' = Inr [(''mirror'', True)]
   \<and> \<not> is_vertically_symmetric_blocks
       [new_block 3 (0, 0) [1, 0, 0, 0], new_block 3 (1, 0) [0, 0, 0, 0],
        new_block 1 (0, 1) [], new_block 1 (1, 1) []]
   \<and> \<not> is_diagonal1_symmetric_blocks
       [new_block 3 (0, 0) [1, 0, 0, 0], new_block 3 (1, 0) [0, 0, 0, 0],
        new_block 1 (0, 1) [], new_block 1 (1, 1) []]
   \<and> \<not> is_diagonal2_symmetric_blocks
       [new_block 3 (0, 0) [1, 0, 0, 0], new_block 3 (1, 0) [0, 0, 0, 0],
        new_block 1 (0, 1) [], new_block 1 (1, 1) []]
   \<and> is_vertically_symmetric_blocks
       [new_block 3 (0, 0) [0, 0, 1, 0], new_block 3 (0, 1) [0, 0, 0, 0],
        new_block 1 (1, 0) [], new_block 1 (1, 1) []]
   \<and> \<not> is_horizontally_symmetric_blocks
       [new_block 3 (0, 0) [0, 0, 1, 0], new_block 3 (0, 1) [0, 0, 0, 0],
        new_block 1 (1, 0) [], new_block 1 (1, 1) []]"
  by code_simp

section \<open>Properties of the session\<close>

lemma save_state_history:
  "history (save_state s) = py_last_n 20 (py_take (history_index s + 1) (history s) @ [snapshot_of s])"
  by (simp add: save_state_def Let_def py_last_n_def snapshot_of_def)

lemma save_state_index:
  "history_index (save_state s) = int (length (history (save_state s))) - 1"
  by (simp add: save_state_def Let_def py_last_n_def)

lemma py_last_n_length: "length (py_last_n n xs) \<le> n"
  by (simp add: py_last_n_def)

lemma py_last_n_last: "xs \<noteq> [] \<Longrightarrow> 0 < n \<Longrightarrow> py_last_n n xs \<noteq> [] \<and> last (py_last_n n xs) = last xs"
  by (cases "length xs \<le> n") (auto simp add: py_last_n_def)

text \<open>
  C9: after \<open>_save_state\<close> the history has at most 20 entries, the cursor is the index
  of its last entry, and that entry is the snapshot just taken; when the cursor was
  within the history (or at -1) the entries after the cursor are dropped before the
  snapshot is appended, and the oldest entries beyond 20 are evicted.
\<close>

theorem save_state_bounded:
  "length (history (save_state s)) \<le> 20
   \<and> history (save_state s) \<noteq> []
   \<and> history_index (save_state s) = int (length (history (save_state s))) - 1
   \<and> last (history (save_state s)) = (block_states (current_blockset s), selection_confirmed s)
   \<and> (- 1 \<le> history_index s \<longrightarrow>
        history (save_state s)
          = py_last_n 20 (take (nat (history_index s + 1)) (history s)
                           @ [(block_states (current_blockset s), selection_confirmed s)]))"
proof (intro conjI impI)
  show "length (history (save_state s)) \<le> 20"
    by (simp add: save_state_history py_last_n_length)
  have "py_last_n 20 (py_take (history_index s + 1) (history s) @ [snapshot_of s]) \<noteq> []
        \<and> last (py_last_n 20 (py_take (history_index s + 1) (history s) @ [snapshot_of s]))
            = last (py_take (history_index s + 1) (history s) @ [snapshot_of s])"
    by (rule py_last_n_last) simp_all
  then show "history (save_state s) \<noteq> []"
    and "last (history (save_state s)) = (block_states (current_blockset s), selection_confirmed s)"
    by (simp_all add: save_state_history snapshot_of_def)
  show "history_index (save_state s) = int (length (history (save_state s))) - 1"
    by (rule save_state_index)
next
  assume "- 1 \<le> history_index s"
  then have "py_take (history_index s + 1) (history s) = take (nat (history_index s + 1)) (history s)"
    by (simp add: py_take_def)
  then show "history (save_state s)
          = py_last_n 20 (take (nat (history_index s + 1)) (history s)
                           @ [(block_states (current_blockset s), selection_confirmed s)])"
    by (simp add: save_state_history snapshot_of_def)
qed

theorem save_state_bounded_witness:
  "(let s = projr (undo (deselect_block 0 (select_block 0
              (projr (load_level (new_level [''glue''] [new_block 1 (0, 0) []]))))))
    in history s = [([((0, 0), True)], False), ([((0, 0), False)], False)]
       \<and> history_index s = 0
       \<and> history (save_state s) = [([((0, 0), True)], False), ([((0, 0), True)], False)]
       \<and> history_index (save_state s) = 1)"
proof -
  define s where "s = projr (undo (deselect_block 0 (select_block 0
              (projr (load_level (new_level [''glue''] [new_block 1 (0, 0) []]))))))"
  have h: "history s = [([((0, 0), True)], False), ([((0, 0), False)], False)]"
    unfolding s_def by code_simp
  have i: "history_index s = 0" unfolding s_def by code_simp
  have b: "block_states (current_blockset s) = [((0, 0), True)]" unfolding s_def by code_simp
  have c: "selection_confirmed s = False" unfolding s_def by code_simp
  show ?thesis
    using save_state_bounded [of s] h i b c
    unfolding s_def [symmetric] Let_def by (simp add: py_last_n_def)
qed

lemma flags_agreeD:
  "flags_agree bs \<Longrightarrow> i < length (blocks bs) \<Longrightarrow> selected (blocks bs ! i) = (i \<in> set (selected_blocks bs))"
  by (simp add: flags_agree_def list_all_iff)

lemma set_add_member: "i \<in> set sel \<Longrightarrow> set_add i sel = sel"
  by (simp add: set_add_def)

lemma set_discard_absent: "i \<notin> set sel \<Longrightarrow> set_discard i sel = sel"
  by (auto simp add: set_discard_def filter_id_conv)

lemma restore_step_same:
  assumes "flags_agree bs" and "i < length (blocks bs)"
  shows "bs\<lparr>blocks := update_block i (\<lambda>block. block\<lparr>pos := pos (blocks bs ! i),
                                                     selected := selected (blocks bs ! i)\<rparr>) (blocks bs),
            selected_blocks := (if selected (blocks bs ! i) then set_add i (selected_blocks bs)
                                else set_discard i (selected_blocks bs))\<rparr> = bs"
proof -
  have "update_block i (\<lambda>block. block\<lparr>pos := pos (blocks bs ! i),
                                       selected := selected (blocks bs ! i)\<rparr>) (blocks bs) = blocks bs"
    using assms(2) by (simp add: update_block_def)
  moreover have "(if selected (blocks bs ! i) then set_add i (selected_blocks bs)
                  else set_discard i (selected_blocks bs)) = selected_blocks bs"
    using flags_agreeD [OF assms] by (simp add: set_add_member set_discard_absent)
  ultimately show ?thesis by simp
qed

lemma restore_blocks_same:
  assumes "flags_agree bs"
  shows "restore_blocks i (drop i (block_states bs)) bs = bs"
proof (induction "length (blocks bs) - i" arbitrary: i)
  case 0
  then show ?case by (simp add: block_states_def)
next
  case (Suc n)
  then have lt: "i < length (blocks bs)" by simp
  then have d: "drop i (block_states bs)
                  = (pos (blocks bs ! i), selected (blocks bs ! i)) # drop (Suc i) (block_states bs)"
    by (simp add: block_states_def flip: drop_map Cons_nth_drop_Suc)
  have n: "n = length (blocks bs) - Suc i" using Suc.hyps(2) by simp
  show ?case
    using Suc.hyps(1) [OF n] lt restore_step_same [OF assms lt] by (simp add: d)
qed

lemma restore_state_same:
  assumes "flags_agree (current_blockset s)" and "fst state = block_states (current_blockset s)"
  shows "current_blockset (restore_state state s) = current_blockset s"
  using restore_blocks_same [OF assms(1), of 0] assms(2) by (simp add: restore_state_def)

lemma py_last_n_len: "length (py_last_n n xs) = min (length xs) n"
  by (simp add: py_last_n_def)

lemma py_last_n_nth:
  "j < length xs \<Longrightarrow> j < n \<Longrightarrow>
     py_last_n n xs ! (length (py_last_n n xs) - Suc j) = xs ! (length xs - Suc j)"
  by (cases "length xs \<le> n") (auto simp add: py_last_n_def)

lemma py_get_nat: "k < length xs \<Longrightarrow> py_get xs (int k) = Inr (xs ! k)"
  by (simp add: py_get_def)


lemma save_state_blockset: "current_blockset (save_state s) = current_blockset s"
  by (simp add: save_state_def Let_def)

lemma save_state_confirmed: "selection_confirmed (save_state s) = selection_confirmed s"
  by (simp add: save_state_def Let_def)

text \<open>
  C4: a click on confirm is made on a non-empty selection that passes the constraints
  of the selection stage, in a session whose history cursor points at a snapshot of the
  current cells (as every change of the selection leaves it). Undo then restores
  \<open>selection_confirmed = False\<close> with the cells and the selection as they were before
  the confirm. Redo moves the cursor back to the snapshot taken by the confirm, whose
  confirmed flag is True, and restores its cells, but \<open>selection_confirmed\<close> stays
  False: \<open>_redo\<close> resets it after restoring.
\<close>

theorem undo_redo_after_confirm:
  assumes passed: "check_constraints (current_blockset s0) (constraints s0) ''selection'' = Inr results"
      "failed_names results = []"
    and nonempty: "selected_blocks (current_blockset s0) \<noteq> []"
    and agree: "flags_agree (current_blockset s0)"
    and cursor: "0 \<le> history_index s0" "history_index s0 < int (length (history s0))"
    and current: "fst (history s0 ! nat (history_index s0)) = block_states (current_blockset s0)"
  shows "\<exists>s1 s2 s3.
           confirm_click s0 = Inr s1 \<and> selection_confirmed s1
           \<and> undo s1 = Inr s2 \<and> \<not> selection_confirmed s2
           \<and> current_blockset s2 = current_blockset s0
           \<and> redo s2 = Inr s3 \<and> \<not> selection_confirmed s3
           \<and> current_blockset s3 = current_blockset s1
           \<and> history s3 = history s1 \<and> history_index s3 = history_index s1
           \<and> snd (last (history s3))"
proof -
  define bs where "bs = current_blockset s0"
  define k where "k = nat (history_index s0)"
  define sa where "sa = s0\<lparr>failed_constraints := [], selection_confirmed := True\<rparr>"
  define c where "c = (block_states bs, True)"
  define h0 where "h0 = take (Suc k) (history s0) @ [c]"
  define H where "H = py_last_n 20 h0"
  define s1 where "s1 = (save_state sa)\<lparr>failed_constraints := []\<rparr>"
  have klt: "k < length (history s0)" using cursor by (simp add: k_def)
  have idx: "history_index s0 = int k" using cursor by (simp add: k_def)
  have len_h0: "length h0 = k + 2" using klt by (simp add: h0_def)
  have click: "confirm_click s0 = Inr s1"
    using passed nonempty
    by (simp add: confirm_click_def confirm_selection_def s1_def sa_def)
  have snap: "snapshot_of sa = c"
    by (simp add: snapshot_of_def sa_def c_def bs_def)
  have "py_take (history_index sa + 1) (history sa) = take (Suc k) (history s0)"
    using idx by (simp add: py_take_def sa_def nat_add_distrib)
  then have hist1: "history s1 = H"
    by (simp add: s1_def save_state_history snap H_def h0_def)
  have idx1: "history_index s1 = int (length H) - 1"
    using save_state_index [of sa] hist1 by (simp add: s1_def)
  have bs1: "current_blockset s1 = bs"
    by (simp add: s1_def save_state_blockset sa_def bs_def)
  have conf1: "selection_confirmed s1"
    by (simp add: s1_def save_state_confirmed sa_def)
  have lenH: "length H = min (k + 2) 20" by (simp add: H_def py_last_n_len len_h0)
  then have lenH2: "2 \<le> length H" by simp
  have H_prev: "H ! (length H - 2) = history s0 ! k"
  proof -
    have "H ! (length H - Suc 1) = h0 ! (length h0 - Suc 1)"
      unfolding H_def by (rule py_last_n_nth) (simp_all add: len_h0)
    also have "\<dots> = h0 ! k" by (simp add: len_h0)
    also have "\<dots> = history s0 ! k" using klt by (simp add: h0_def nth_append)
    finally show ?thesis by (simp add: numeral_2_eq_2)
  qed
  have H_last: "H ! (length H - 1) = c"
  proof -
    have "H ! (length H - Suc 0) = h0 ! (length h0 - Suc 0)"
      unfolding H_def by (rule py_last_n_nth) (simp_all add: len_h0)
    also have "\<dots> = c" by (simp add: len_h0 h0_def nth_append)
    finally show ?thesis by simp
  qed
  have lastH: "last H = c"
    using H_last lenH2 by (metis last_conv_nth length_0_conv not_numeral_le_zero)
  \<comment> \<open>Undo\<close>
  define s1' where "s1' = s1\<lparr>history_index := history_index s1 - 1\<rparr>"
  define s2 where "s2 = (restore_state (history s0 ! k) s1')\<lparr>selection_confirmed := False, failed_constraints := []\<rparr>"
  have idx1': "history_index s1' = int (length H - 2)"
    using idx1 lenH2 by (simp add: s1'_def)
  have get1: "py_get (history s1') (history_index s1') = Inr (history s0 ! k)"
  proof -
    have "py_get H (int (length H - 2)) = Inr (H ! (length H - 2))"
      using lenH2 by (intro py_get_nat) simp
    then show ?thesis using hist1 idx1' H_prev by (simp add: s1'_def)
  qed
  have pos1: "history_index s1 > 0" using idx1 lenH2 by simp
  have "undo s1 = bind_err (py_get (history s1') (history_index s1'))
                    (\<lambda>state. Inr ((restore_state state s1')\<lparr>selection_confirmed := False, failed_constraints := []\<rparr>))"
    using pos1 by (simp only: undo_def Let_def s1'_def if_True)
  then have undo: "undo s1 = Inr s2"
    using get1 by (simp add: s2_def)
  have bs1': "current_blockset s1' = bs" using bs1 by (simp add: s1'_def)
  have bs2: "current_blockset s2 = bs"
  proof -
    have "current_blockset (restore_state (history s0 ! k) s1') = current_blockset s1'"
      using agree current by (intro restore_state_same) (simp_all add: bs1' bs_def k_def)
    then show ?thesis by (simp add: s2_def bs1')
  qed
  have hist2: "history s2 = H" using hist1 by (simp add: s2_def restore_state_def s1'_def)
  have idx2: "history_index s2 = int (length H - 2)"
    using idx1' by (simp add: s2_def restore_state_def)
  \<comment> \<open>Redo\<close>
  define s2' where "s2' = s2\<lparr>history_index := history_index s2 + 1\<rparr>"
  define s3 where "s3 = (restore_state c s2')\<lparr>selection_confirmed := False, failed_constraints := []\<rparr>"
  have idx2': "history_index s2' = int (length H - 1)"
    using idx2 lenH2 by (simp add: s2'_def)
  have get2: "py_get (history s2') (history_index s2') = Inr c"
  proof -
    have "py_get H (int (length H - 1)) = Inr (H ! (length H - 1))"
      using lenH2 by (intro py_get_nat) simp
    then show ?thesis using hist2 idx2' H_last by (simp add: s2'_def)
  qed
  have pos2: "history_index s2 < int (length (history s2)) - 1"
    using idx2 hist2 lenH2 by simp
  have "redo s2 = bind_err (py_get (history s2') (history_index s2'))
                    (\<lambda>state. Inr ((restore_state state s2')\<lparr>selection_confirmed := False, failed_constraints := []\<rparr>))"
    using pos2 by (simp only: redo_def Let_def s2'_def if_True)
  then have redo: "redo s2 = Inr s3"
    using get2 by (simp add: s3_def)
  have bs2': "current_blockset s2' = bs" using bs2 by (simp add: s2'_def)
  have bs3: "current_blockset s3 = bs"
  proof -
    have "current_blockset (restore_state c s2') = current_blockset s2'"
      using agree by (intro restore_state_same) (simp_all add: bs2' bs_def c_def)
    then show ?thesis by (simp add: s3_def bs2')
  qed
  have hist3: "history s3 = H" using hist2 by (simp add: s3_def restore_state_def s2'_def)
  have idx3: "history_index s3 = history_index s1"
    using idx2' idx1 lenH2 by (simp add: s3_def restore_state_def)
  have "\<not> selection_confirmed s2" by (simp add: s2_def)
  moreover have "\<not> selection_confirmed s3" by (simp add: s3_def)
  moreover have "snd (last (history s3))" using hist3 lastH by (simp add: c_def)
  ultimately show ?thesis
    using click conf1 undo bs2 redo bs3 bs1 hist3 hist1 idx3 by (auto simp add: bs_def)
qed

theorem undo_redo_after_confirm_witness:
  "(let s0 = select_block 0 (projr (load_level (new_level [''glue''] [new_block 1 (0, 0) []])))
    in selected_blocks (current_blockset s0) = [0]
       \<and> history_index s0 = 0
       \<and> (\<exists>s1 s2 s3.
             confirm_click s0 = Inr s1 \<and> selection_confirmed s1
             \<and> undo s1 = Inr s2 \<and> \<not> selection_confirmed s2
             \<and> current_blockset s2 = current_blockset s0
             \<and> redo s2 = Inr s3 \<and> \<not> selection_confirmed s3
             \<and> current_blockset s3 = current_blockset s1
             \<and> history_index s3 = history_index s1))"
proof -
  define s0 where "s0 = select_block 0 (projr (load_level (new_level [''glue''] [new_block 1 (0, 0) []])))"
  have a: "check_constraints (current_blockset s0) (constraints s0) ''selection'' = Inr [(''glue'', True)]"
    unfolding s0_def by code_simp
  have b: "failed_names [(''glue'', True)] = []" by code_simp
  have sel: "selected_blocks (current_blockset s0) = [0]" unfolding s0_def by code_simp
  then have c: "selected_blocks (current_blockset s0) \<noteq> []" by simp
  have d: "flags_agree (current_blockset s0)" unfolding s0_def by code_simp
  have i: "history_index s0 = 0" unfolding s0_def by code_simp
  have e: "0 \<le> history_index s0" using i by simp
  have f: "history_index s0 < int (length (history s0))" unfolding s0_def by code_simp
  have g: "fst (history s0 ! nat (history_index s0)) = block_states (current_blockset s0)"
    unfolding s0_def by code_simp
  show ?thesis
    using undo_redo_after_confirm [OF a b c d e f g] sel i
    unfolding s0_def [symmetric] Let_def by blast
qed

text \<open>
  C4, as the specification states it: after a successful confirm, an undo and a redo,
  \<open>selection_confirmed\<close> is False although the cursor is back at the confirm's
  snapshot.
\<close>

theorem redo_leaves_unconfirmed:
  "\<not> isl (load_level one_glue_level)
   \<and> \<not> isl (confirm_click selected_once) \<and> selection_confirmed after_confirm
   \<and> \<not> isl (undo after_confirm) \<and> \<not> selection_confirmed after_undo
   \<and> \<not> isl (redo after_undo) \<and> history_index after_redo = history_index after_confirm
   \<and> snd (last (history after_redo))
   \<and> \<not> selection_confirmed after_redo"
  by code_simp

lemma bind_err_Inr_iff:
  "bind_err m f = Inr r \<longleftrightarrow> (\<exists>v. m = Inr v \<and> f v = Inr r)"
  by (cases m) (simp_all add: bind_err_def)

lemma dict_set_keys: "fst ` set (dict_set k v kvs) = insert k (fst ` set kvs)"
  by (induction kvs) auto

lemma dict_set_distinct: "distinct (map fst kvs) \<Longrightarrow> distinct (map fst (dict_set k v kvs))"
proof (induction kvs)
  case Nil
  then show ?case by simp
next
  case (Cons p ps)
  then show ?case using dict_set_keys [of k v ps] by (auto simp add: image_iff)
qed

lemma dict_set_entries:
  "distinct (map fst kvs) \<Longrightarrow> (a, b) \<in> set (dict_set k v kvs)
     \<Longrightarrow> (a = k \<and> b = v) \<or> (a \<noteq> k \<and> (a, b) \<in> set kvs)"
  by (induction kvs) (force split: if_splits)+

lemma check_constraints_loop_props:
  assumes "check_constraints_loop bs stage names acc = Inr results" and "distinct (map fst acc)"
  shows "distinct (map fst results)
       \<and> fst ` set results = fst ` set acc \<union> set names
       \<and> (\<forall>(k, v) \<in> set results.
            (k \<in> set names \<longrightarrow> check_constraint bs stage k = Inr v)
            \<and> (k \<notin> set names \<longrightarrow> (k, v) \<in> set acc))"
  using assms
proof (induction names arbitrary: acc)
  case Nil
  then show ?case by auto
next
  case (Cons n ns)
  from Cons.prems(1) obtain r where r: "check_constraint bs stage n = Inr r"
    and rest: "check_constraints_loop bs stage ns (dict_set n r acc) = Inr results"
    by (auto simp add: bind_err_Inr_iff)
  have d: "distinct (map fst (dict_set n r acc))"
    using Cons.prems(2) by (rule dict_set_distinct)
  note ih = Cons.IH [OF rest d]
  have keys: "fst ` set results = fst ` set acc \<union> set (n # ns)"
    using ih by (auto simp add: dict_set_keys)
  have entries: "\<forall>(k, v) \<in> set results.
            (k \<in> set (n # ns) \<longrightarrow> check_constraint bs stage k = Inr v)
            \<and> (k \<notin> set (n # ns) \<longrightarrow> (k, v) \<in> set acc)"
  proof (clarify, intro conjI impI)
    fix k v
    assume kv: "(k, v) \<in> set results" and "k \<in> set (n # ns)"
    show "check_constraint bs stage k = Inr v"
    proof (cases "k \<in> set ns")
      case True
      then show ?thesis using ih kv by auto
    next
      case False
      then have "(k, v) \<in> set (dict_set n r acc)" and "k = n"
        using ih kv \<open>k \<in> set (n # ns)\<close> by auto
      then have "v = r" using dict_set_entries [OF Cons.prems(2)] by fastforce
      then show ?thesis using r \<open>k = n\<close> by simp
    qed
  next
    fix k v
    assume kv: "(k, v) \<in> set results" and out: "k \<notin> set (n # ns)"
    then have "(k, v) \<in> set (dict_set n r acc)" using ih by auto
    then show "(k, v) \<in> set acc" using dict_set_entries [OF Cons.prems(2)] out by fastforce
  qed
  show ?case using ih keys entries by blast
qed

lemma failed_names_exact:
  assumes "check_constraints bs names stage = Inr results"
  shows "distinct (failed_names results)
       \<and> set (failed_names results) = {n \<in> set names. check_constraint bs stage n = Inr False}"
proof -
  have props: "distinct (map fst results)
       \<and> fst ` set results = set names
       \<and> (\<forall>(k, v) \<in> set results. k \<in> set names \<and> check_constraint bs stage k = Inr v)"
    using check_constraints_loop_props [of bs stage names "[]" results] assms
    by (auto simp add: check_constraints_def)
  have d: "distinct (failed_names results)"
    using props by (simp add: failed_names_def distinct_map_filter)
  have "set (failed_names results) = {n \<in> set names. check_constraint bs stage n = Inr False}"
  proof (intro set_eqI iffI)
    fix n
    assume "n \<in> set (failed_names results)"
    then have "(n, False) \<in> set results" by (auto simp add: failed_names_def)
    then show "n \<in> {n \<in> set names. check_constraint bs stage n = Inr False}"
      using props by auto
  next
    fix n
    assume "n \<in> {n \<in> set names. check_constraint bs stage n = Inr False}"
    then have n: "n \<in> set names" and f: "check_constraint bs stage n = Inr False" by auto
    then have "n \<in> fst ` set results" using props by simp
    then obtain v where v: "(n, v) \<in> set results" by auto
    then have "check_constraint bs stage n = Inr v" using props by auto
    then have "v = False" using f by simp
    then show "n \<in> set (failed_names results)" using v by (force simp add: failed_names_def)
  qed
  then show ?thesis using d by simp
qed

lemma update_block_length [simp]: "length (update_block i f bl) = length bl"
  by (simp add: update_block_def)

lemma update_block_nth:
  "j < length bl \<Longrightarrow> update_block i f bl ! j = (if j = i then f (bl ! j) else bl ! j)"
  by (simp add: update_block_def)

lemma clear_flags_length [simp]: "length (clear_flags sel bl) = length bl"
  unfolding clear_flags_def by (induction sel arbitrary: bl) simp_all

lemma clear_flags_nth:
  "j < length bl \<Longrightarrow>
     clear_flags sel bl ! j = (if j \<in> set sel then (bl ! j)\<lparr>selected := False\<rparr> else bl ! j)"
  unfolding clear_flags_def
proof (induction sel arbitrary: bl)
  case Nil
  then show ?case by simp
next
  case (Cons i sel)
  then show ?case by (simp add: update_block_nth)
qed

lemma fire_selection_change_blockset [simp]:
  "current_blockset (fire_selection_change s) = current_blockset s"
  by (simp add: fire_selection_change_def save_state_def Let_def)

lemma fire_selection_change_state [simp]:
  "current_state (fire_selection_change s) = current_state s"
  by (simp add: fire_selection_change_def save_state_def Let_def)

lemma reset_level_props:
  "(\<forall>b \<in> set (blocks (current_blockset (reset_level s))). pos b = original_pos b)
   \<and> selected_blocks (current_blockset (reset_level s)) = []
   \<and> (\<forall>i \<in> set (selected_blocks (current_blockset s)).
         i < length (blocks (current_blockset s)) \<longrightarrow>
           \<not> selected (blocks (current_blockset (reset_level s)) ! i))
   \<and> length (blocks (current_blockset (reset_level s))) = length (blocks (current_blockset s))
   \<and> history (reset_level s) = [] \<and> history_index (reset_level s) = - 1
   \<and> \<not> selection_confirmed (reset_level s)
   \<and> failed_constraints (reset_level s) = []
   \<and> current_state (reset_level s) = current_state s"
proof -
  define bl where "bl = map (\<lambda>block. block\<lparr>pos := original_pos block\<rparr>) (blocks (current_blockset s))"
  define sel where "sel = selected_blocks (current_blockset s)"
  have bs: "current_blockset (reset_level s)
              = (current_blockset s)\<lparr>blocks := clear_flags sel bl, selected_blocks := []\<rparr>"
    by (simp add: reset_level_def clear_selection_def Let_def bl_def sel_def)
  have nth: "\<And>j. j < length bl \<Longrightarrow> pos (clear_flags sel bl ! j) = original_pos (clear_flags sel bl ! j)"
    by (simp add: clear_flags_nth) (simp add: bl_def)
  have p: "\<forall>b \<in> set (clear_flags sel bl). pos b = original_pos b"
    using nth by (auto simp add: in_set_conv_nth)
  have f: "\<forall>i \<in> set sel. i < length bl \<longrightarrow> \<not> selected (clear_flags sel bl ! i)"
    by (simp add: clear_flags_nth)
  have len: "length bl = length (blocks (current_blockset s))" by (simp add: bl_def)
  show ?thesis
    using p f len by (simp add: bs) (simp add: reset_level_def Let_def clear_selection_def sel_def)
qed


lemma save_state_frame:
  "current_state (save_state s) = current_state s
   \<and> selection_confirmed (save_state s) = selection_confirmed s
   \<and> constraints (save_state s) = constraints s"
  by (simp add: save_state_def Let_def)

lemma select_block_frame:
  "current_state (select_block i s) = current_state s
   \<and> selection_confirmed (select_block i s) = selection_confirmed s
   \<and> constraints (select_block i s) = constraints s"
  by (simp add: select_block_def Let_def fire_selection_change_def save_state_frame)

lemma select_area_loop_frame:
  "current_state (select_area_loop a b js s) = current_state s
   \<and> selection_confirmed (select_area_loop a b js s) = selection_confirmed s
   \<and> constraints (select_area_loop a b js s) = constraints s"
  by (induction js arbitrary: s) (simp_all add: select_block_frame)

lemma end_drag_reset_or_select_frame:
  assumes "end_drag_reset_or_select v s = Inr s1"
  shows "current_state s1 = current_state s \<and> selection_confirmed s1 = selection_confirmed s
         \<and> constraints s1 = constraints s"
  using assms
  by (auto simp add: end_drag_reset_or_select_def bind_err_Inr_iff set_blocks_def
      select_blocks_in_area_def select_area_loop_frame split: if_splits option.splits)

lemma end_drag_apply_frame:
  assumes "end_drag_apply v s = Inr s1"
  shows "current_state s1 = current_state s \<and> selection_confirmed s1 = selection_confirmed s
         \<and> constraints s1 = constraints s"
  using assms
  by (auto simp add: end_drag_apply_def bind_err_Inr_iff set_blocks_def split: if_splits option.splits)

lemma end_drag_frame:
  assumes "end_drag mouse s = Inr s1"
  shows "current_state s1 = current_state s \<and> selection_confirmed s1 = selection_confirmed s
         \<and> constraints s1 = constraints s"
proof -
  from assms obtain v sa v2 sb where
      a: "end_drag_reset_or_select v s = Inr sa"
      and b: "end_drag_apply v2 sa = Inr sb"
      and c: "s1 = sb\<lparr>dragging := False, moving_blocks := False, drag_start := None, drag_end := None,
               move_start_pos := None, original_positions := None,
               temp_selected_block_set := None\<rparr>"
    by (auto simp add: end_drag_def bind_err_Inr_iff split: prod.splits)
  show ?thesis
    using end_drag_reset_or_select_frame [OF a] end_drag_apply_frame [OF b] by (simp add: c)
qed

text \<open>
  C6: when the evaluation at the movement stage that follows \<open>end_drag\<close> has a failing
  constraint, every block is back at its original position, the selected set is empty
  and the flags of its former members are cleared, the history is empty with the cursor
  at -1, the selection is no longer confirmed, and the reported names are, without
  repetition, exactly the required constraints that evaluated to False.
\<close>

theorem end_drag_failure_reverts:
  assumes "current_state s = ''in_level_chooseblock''" and "dragging s" and "selection_confirmed s"
    and "end_drag mouse s = Inr s1"
    and "check_constraints (current_blockset s1) (constraints s) ''movement'' = Inr results"
    and "failed_names results \<noteq> []"
  shows "\<exists>s'. handle_mouse_up mouse s = Inr s'
           \<and> (\<forall>b \<in> set (blocks (current_blockset s')). pos b = original_pos b)
           \<and> selected_blocks (current_blockset s') = []
           \<and> (\<forall>i \<in> set (selected_blocks (current_blockset s1)).
                 i < length (blocks (current_blockset s1)) \<longrightarrow>
                   \<not> selected (blocks (current_blockset s') ! i))
           \<and> history s' = [] \<and> history_index s' = - 1
           \<and> \<not> selection_confirmed s'
           \<and> current_state s' = ''in_level_chooseblock''
           \<and> failed_constraints s' = failed_names results
           \<and> distinct (failed_constraints s')
           \<and> set (failed_constraints s')
               = {n \<in> set (constraints s). check_constraint (current_blockset s1) ''movement'' n = Inr False}"
proof -
  define s3 where "s3 = s1\<lparr>move_start_pos := None, original_positions := Some [],
                            failed_constraints := failed_names results\<rparr>"
  define s' where "s' = (reset_level s3)\<lparr>failed_constraints := failed_names results\<rparr>"
  note frame = end_drag_frame [OF assms(4)]
  have up: "handle_mouse_up mouse s = Inr s'"
    using assms frame by (simp add: handle_mouse_up_def Let_def s'_def s3_def)
  have bs3: "current_blockset s3 = current_blockset s1" by (simp add: s3_def)
  have st3: "current_state s3 = ''in_level_chooseblock''"
    using frame assms(1) by (simp add: s3_def)
  note props = reset_level_props [of s3]
  note exact = failed_names_exact [OF assms(5)]
  show ?thesis
    using up props exact st3 by (intro exI [of _ s']) (simp add: s'_def bs3)
qed

theorem end_drag_failure_reverts_witness:
  "(let s = projr (start_drag (700, 400)
               (projr (confirm_click (select_block 0
                  (projr (load_level (new_level [''glue'', ''pyramid'']
                     [new_block 1 (0, 0) [], new_block 3 (3, 3) [1, 0, 0, 0]])))))))
    in dragging s \<and> selection_confirmed s
       \<and> (\<exists>s'. handle_mouse_up (700, 400) s = Inr s'
             \<and> (\<forall>b \<in> set (blocks (current_blockset s')). pos b = original_pos b)
             \<and> selected_blocks (current_blockset s') = []
             \<and> history s' = [] \<and> history_index s' = - 1
             \<and> \<not> selection_confirmed s'
             \<and> failed_constraints s' = [''pyramid'']))"
proof -
  define s where "s = projr (start_drag (700, 400)
               (projr (confirm_click (select_block 0
                  (projr (load_level (new_level [''glue'', ''pyramid'']
                     [new_block 1 (0, 0) [], new_block 3 (3, 3) [1, 0, 0, 0]])))))))"
  define s1 where "s1 = projr (end_drag (700, 400) s)"
  have a: "current_state s = ''in_level_chooseblock''" unfolding s_def by code_simp
  have b: "dragging s" unfolding s_def by code_simp
  have c: "selection_confirmed s" unfolding s_def by code_simp
  have "\<not> isl (end_drag (700, 400) s)" unfolding s_def by code_simp
  then have d: "end_drag (700, 400) s = Inr s1" by (simp add: s1_def)
  have e: "check_constraints (current_blockset s1) (constraints s) ''movement''
             = Inr [(''glue'', True), (''pyramid'', False)]"
    unfolding s1_def s_def by code_simp
  have f: "failed_names [(''glue'', True), (''pyramid'', False)] \<noteq> []" by code_simp
  have g: "failed_names [(''glue'', True), (''pyramid'', False)] = [''pyramid'']" by code_simp
  show ?thesis
    using end_drag_failure_reverts [OF a b c d e f] b c g
    unfolding s_def [symmetric] Let_def by auto
qed

subsection \<open>The flags and the selected set\<close>

text \<open>
  Selecting, deselecting, selecting an area, clearing the selection, resetting the
  level, confirming, undoing, redoing and starting a drag all keep the flags in
  agreement with the selected set.
\<close>

lemma flags_agree_iff:
  "flags_agree bs \<longleftrightarrow>
     (\<forall>j < length (blocks bs). selected (blocks bs ! j) = (j \<in> set (selected_blocks bs)))"
  by (auto simp add: flags_agree_def list_all_iff)

lemma set_set_add [simp]: "set (set_add i sel) = insert i (set sel)"
  by (auto simp add: set_add_def)

lemma set_set_discard [simp]: "set (set_discard i sel) = set sel - {i}"
  by (auto simp add: set_discard_def)

lemma select_block_agree:
  assumes "flags_agree (current_blockset s)"
  shows "flags_agree (current_blockset (select_block i s))"
  using assms
  by (auto simp add: select_block_def Let_def flags_agree_iff update_block_nth)

lemma deselect_block_agree:
  assumes "flags_agree (current_blockset s)"
  shows "flags_agree (current_blockset (deselect_block i s))"
  using assms
  by (auto simp add: deselect_block_def Let_def flags_agree_iff update_block_nth)

lemma select_area_loop_agree:
  "flags_agree (current_blockset s) \<Longrightarrow> flags_agree (current_blockset (select_area_loop a b js s))"
  by (induction js arbitrary: s) (simp_all add: select_block_agree)

lemma select_blocks_in_area_agree:
  "flags_agree (current_blockset s) \<Longrightarrow> flags_agree (current_blockset (select_blocks_in_area a b s))"
  by (simp add: select_blocks_in_area_def select_area_loop_agree)

lemma clear_selection_agree:
  assumes "flags_agree (current_blockset s)"
  shows "flags_agree (current_blockset (clear_selection s))"
  using assms
  by (auto simp add: clear_selection_def Let_def flags_agree_iff clear_flags_nth)

lemma reset_level_agree:
  assumes "flags_agree (current_blockset s)"
  shows "flags_agree (current_blockset (reset_level s))"
proof -
  let ?s1 = "s\<lparr>current_blockset := (current_blockset s)\<lparr>blocks :=
                 map (\<lambda>block. block\<lparr>pos := original_pos block\<rparr>) (blocks (current_blockset s))\<rparr>\<rparr>"
  have "flags_agree (current_blockset ?s1)"
    using assms by (simp add: flags_agree_iff)
  then have "flags_agree (current_blockset (clear_selection ?s1))"
    by (rule clear_selection_agree)
  then show ?thesis by (simp add: reset_level_def Let_def)
qed

lemma restore_blocks_agree:
  "flags_agree bs \<Longrightarrow> flags_agree (restore_blocks i state_blocks bs)"
proof (induction state_blocks arbitrary: i bs)
  case Nil
  then show ?case by simp
next
  case (Cons ps state_blocks)
  let ?bs = "bs\<lparr>blocks := update_block i (\<lambda>block. block\<lparr>pos := fst ps, selected := snd ps\<rparr>) (blocks bs),
                selected_blocks := (if snd ps then set_add i (selected_blocks bs)
                                    else set_discard i (selected_blocks bs))\<rparr>"
  have "flags_agree ?bs"
    using Cons.prems by (auto simp add: flags_agree_iff update_block_nth)
  then show ?case using Cons.IH Cons.prems by simp
qed

lemma restore_state_agree:
  "flags_agree (current_blockset s) \<Longrightarrow> flags_agree (current_blockset (restore_state state s))"
  by (simp add: restore_state_def restore_blocks_agree)

lemma undo_agree:
  assumes "flags_agree (current_blockset s)" and "undo s = Inr s'"
  shows "flags_agree (current_blockset s')"
proof (cases "history_index s > 0")
  case True
  then obtain state where
    "s' = (restore_state state (s\<lparr>history_index := history_index s - 1\<rparr>))
            \<lparr>selection_confirmed := False, failed_constraints := []\<rparr>"
    using assms(2) by (auto simp add: undo_def Let_def bind_err_Inr_iff)
  then show ?thesis using restore_state_agree [of "s\<lparr>history_index := history_index s - 1\<rparr>" state] assms(1)
    by simp
next
  case False
  then show ?thesis using assms by (simp add: undo_def)
qed

lemma redo_agree:
  assumes "flags_agree (current_blockset s)" and "redo s = Inr s'"
  shows "flags_agree (current_blockset s')"
proof (cases "history_index s < int (length (history s)) - 1")
  case True
  then obtain state where
    "s' = (restore_state state (s\<lparr>history_index := history_index s + 1\<rparr>))
            \<lparr>selection_confirmed := False, failed_constraints := []\<rparr>"
    using assms(2) by (auto simp add: redo_def Let_def bind_err_Inr_iff)
  then show ?thesis using restore_state_agree [of "s\<lparr>history_index := history_index s + 1\<rparr>" state] assms(1)
    by simp
next
  case False
  then show ?thesis using assms by (simp add: redo_def)
qed

lemma confirm_click_agree:
  assumes "flags_agree (current_blockset s)" and "confirm_click s = Inr s'"
  shows "flags_agree (current_blockset s')"
  using assms
  by (auto simp add: confirm_click_def confirm_selection_def bind_err_Inr_iff Let_def
      save_state_blockset split: if_splits)

lemma fold_select_ghost_nth:
  "j < length bl \<Longrightarrow>
     fold (\<lambda>i. update_block i (\<lambda>block. block\<lparr>selected := True, ghost := True\<rparr>)) sel bl ! j
       = (if j \<in> set sel then (bl ! j)\<lparr>selected := True, ghost := True\<rparr> else bl ! j)"
  by (induction sel arbitrary: bl) (simp_all add: update_block_nth)

lemma fold_select_ghost_length [simp]:
  "length (fold (\<lambda>i. update_block i (\<lambda>block. block\<lparr>selected := True, ghost := True\<rparr>)) sel bl) = length bl"
  by (induction sel arbitrary: bl) simp_all

lemma start_drag_agree:
  assumes "flags_agree (current_blockset s)" and "start_drag p s = Inr s'"
  shows "flags_agree (current_blockset s')"
  using assms
  by (auto simp add: start_drag_def Let_def bind_err_Inr_iff flags_agree_iff fold_select_ghost_nth
      split: if_splits)

text \<open>After a toggle with the callback bound, the cursor points at a snapshot of the current cells.\<close>

lemma save_state_cursor:
  "0 \<le> history_index (save_state s)
   \<and> history_index (save_state s) < int (length (history (save_state s)))
   \<and> fst (history (save_state s) ! nat (history_index (save_state s)))
       = block_states (current_blockset (save_state s))"
proof -
  have ne: "history (save_state s) \<noteq> []"
    and l: "last (history (save_state s)) = (block_states (current_blockset s), selection_confirmed s)"
    and i: "history_index (save_state s) = int (length (history (save_state s))) - 1"
    using save_state_history [of s] save_state_index [of s]
      py_last_n_last [of "py_take (history_index s + 1) (history s) @ [snapshot_of s]" 20]
    by (simp_all add: snapshot_of_def)
  have "nat (history_index (save_state s)) = length (history (save_state s)) - 1"
    using i ne by (simp add: nat_diff_distrib')
  then have "history (save_state s) ! nat (history_index (save_state s)) = last (history (save_state s))"
    using ne by (simp add: last_conv_nth)
  then show ?thesis using ne l i by (simp add: save_state_blockset)
qed

text \<open>
  C5: the operations above keep every \<open>selected\<close> flag in agreement with the selected
  set (\<open>update_drag\<close> writes to the temporary blocks only), but \<open>end_drag\<close> does not.
  A level with one block is loaded, the block is selected and confirmed, and a drag
  is started and ended on the spot. The flags agree with the selected set before
  \<open>end_drag\<close>; after it, and after the whole mouse-up handling that ends on the
  congratulation screen, the block is still a member of \<open>selected_blocks\<close> while its
  \<open>selected\<close> flag is False.
\<close>

theorem end_drag_clears_flags_only:
  "bind_err (load_level (new_level [] [new_block 1 (0, 0) []])) (\<lambda>s.
     bind_err (confirm_click (select_block 0 s)) (\<lambda>s1.
     bind_err (start_drag (700, 400) s1) (\<lambda>s2.
     bind_err (end_drag (700, 400) s2) (\<lambda>s3.
     bind_err (handle_mouse_up (700, 400) s2) (\<lambda>s4.
       Inr (flags_agree (current_blockset s2),
            selected_blocks (current_blockset s3), map selected (blocks (current_blockset s3)),
            current_state s4,
            selected_blocks (current_blockset s4), map selected (blocks (current_blockset s4))))))))
   = Inr (True, [0], [False], ''congrats'', [0], [False])"
  by code_simp

end
